theory Spec2Isabelle
  imports Complex_Main
begin

section \<open>JavaScript values used by the routes\<close>

text \<open>
  The routes of \<^verbatim>\<open>scoring.routes.js\<close>, the games routes and the controllers work on
  JSON request bodies and on rows of the Supabase tables. A JavaScript object is the list
  of its own enumerable properties in enumeration order, which is what
  \<^verbatim>\<open>Object.entries\<close> and \<^verbatim>\<open>for ... in\<close> walk through. A thrown exception is \<open>Inl\<close> of
  its message.

  A number that a request or a stored configuration carries (a weight, a variable), and a
  number that the evaluator returns, is a finite double, written as the real number it
  is (\<open>jsnum\<close>). What the routes compute from them is a \<open>double\<close>: the product, the sum
  and the quotient are rounded as IEEE 754 binary64 rounds them, to the nearest double,
  a tie going to the even one, and they can be infinite or \<^verbatim>\<open>NaN\<close>. The two zeros of
  IEEE 754 are one value here: they are equal for \<^verbatim>\<open>===\<close>, and JSON writes both as 0.
\<close>

type_synonym jsnum = real

type_synonym 'a jsobject = "(string \<times> 'a) list"

datatype double = Finite real | PInf | NInf | NaN

text \<open>Rounding a real number to an integer, a tie going to the even one.\<close>

definition round_even :: "real \<Rightarrow> int" where
  "round_even z =
     (let q = \<lfloor>z\<rfloor>; r = z - real_of_int q in
      if r < 1 / 2 then q else if 1 / 2 < r then q + 1 else if even q then q else q + 1)"

text \<open>
  The double nearest to a real number: 53 significant bits, the exponent of the last bit
  not below \<open>-1074\<close>, and an infinity when the rounded value reaches \<open>2 ^ 1024\<close>.
\<close>

definition fl :: "real \<Rightarrow> double" where
  "fl x =
     (if x = 0 then Finite 0
      else
        let e = max (\<lfloor>log 2 \<bar>x\<bar>\<rfloor> - 52) (- 1074);
            y = real_of_int (round_even (x / 2 powi e)) * 2 powi e
        in if 2 ^ 1024 \<le> \<bar>y\<bar> then (if 0 < x then PInf else NInf) else Finite y)"

text \<open>The infinity with the sign of a real number (of a zero: the positive one).\<close>

definition infinity :: "real \<Rightarrow> double" where
  "infinity s = (if 0 \<le> s then PInf else NInf)"

fun dneg :: "double \<Rightarrow> double" where
  "dneg (Finite a) = Finite (- a)"
| "dneg PInf = NInf"
| "dneg NInf = PInf"
| "dneg NaN = NaN"

text \<open>\<^verbatim>\<open>a + b\<close>, \<^verbatim>\<open>a - b\<close>, \<^verbatim>\<open>a * b\<close> and \<^verbatim>\<open>a / b\<close> on doubles.\<close>

fun dadd :: "double \<Rightarrow> double \<Rightarrow> double" where
  "dadd (Finite a) (Finite b) = fl (a + b)"
| "dadd NaN b = NaN"
| "dadd a NaN = NaN"
| "dadd PInf NInf = NaN"
| "dadd NInf PInf = NaN"
| "dadd PInf b = PInf"
| "dadd NInf b = NInf"
| "dadd a PInf = PInf"
| "dadd a NInf = NInf"

definition dsub :: "double \<Rightarrow> double \<Rightarrow> double" where
  "dsub a b = dadd a (dneg b)"

fun dmul :: "double \<Rightarrow> double \<Rightarrow> double" where
  "dmul (Finite a) (Finite b) = fl (a * b)"
| "dmul NaN b = NaN"
| "dmul a NaN = NaN"
| "dmul (Finite a) PInf = (if a = 0 then NaN else infinity a)"
| "dmul (Finite a) NInf = (if a = 0 then NaN else infinity (- a))"
| "dmul PInf (Finite b) = (if b = 0 then NaN else infinity b)"
| "dmul NInf (Finite b) = (if b = 0 then NaN else infinity (- b))"
| "dmul PInf PInf = PInf"
| "dmul NInf NInf = PInf"
| "dmul PInf NInf = NInf"
| "dmul NInf PInf = NInf"

fun ddiv :: "double \<Rightarrow> double \<Rightarrow> double" where
  "ddiv (Finite a) (Finite b) =
     (if b = 0 then (if a = 0 then NaN else infinity a) else fl (a / b))"
| "ddiv NaN b = NaN"
| "ddiv a NaN = NaN"
| "ddiv (Finite a) b = Finite 0"
| "ddiv PInf (Finite b) = infinity b"
| "ddiv NInf (Finite b) = infinity (- b)"
| "ddiv a b = NaN"

definition is_finite :: "double \<Rightarrow> bool" where
  "is_finite d = (case d of Finite x \<Rightarrow> True | _ \<Rightarrow> False)"

text \<open>
  \<^verbatim>\<open>Math.round\<close> rounds to the nearest integer, a tie going up, and leaves an infinity
  and \<^verbatim>\<open>NaN\<close> as they are. The integer is a double whenever its argument is one.
\<close>

fun Math_round :: "double \<Rightarrow> double" where
  "Math_round (Finite x) = Finite (real_of_int \<lfloor>x + 1 / 2\<rfloor>)"
| "Math_round d = d"

text \<open>\<^verbatim>\<open>Math.round(totalWeighted * 100) / 100\<close>.\<close>

definition round2 :: "double \<Rightarrow> double" where
  "round2 t = ddiv (Math_round (dmul t (Finite 100))) (Finite 100)"

text \<open>\<^verbatim>\<open>obj[key]\<close> for an own property: its value, \<open>None\<close> when the object has none.\<close>

definition property :: "'a jsobject \<Rightarrow> string \<Rightarrow> 'a option" where
  "property obj key = map_of obj key"

text \<open>
  The names that every object inherits from \<^verbatim>\<open>Object.prototype\<close>: reading one of them
  from an object that has no own property of that name gives a function (for
  \<^verbatim>\<open>__proto__\<close> the prototype itself), not \<^verbatim>\<open>undefined\<close>.
\<close>

definition object_prototype_names :: "string list" where
  "object_prototype_names =
     [''constructor'', ''__defineGetter__'', ''__defineSetter__'', ''hasOwnProperty'',
      ''__lookupGetter__'', ''__lookupSetter__'', ''isPrototypeOf'', ''propertyIsEnumerable'',
      ''toString'', ''valueOf'', ''__proto__'', ''toLocaleString'']"

text \<open>
  The value of \<^verbatim>\<open>weights[name] || 0\<close> for an object of numbers: the own weight (0 is
  falsy and gives 0), else the inherited member when the name is one of
  \<^verbatim>\<open>Object.prototype\<close>, which is truthy, else 0. As a factor the inherited member is
  \<^verbatim>\<open>NaN\<close>.
\<close>

datatype jsweight = Num jsnum | Inherited

definition weight_or_0 :: "jsnum jsobject \<Rightarrow> string \<Rightarrow> jsweight" where
  "weight_or_0 ws name =
     (case property ws name of
        Some w \<Rightarrow> Num w
      | None \<Rightarrow> if name \<in> set object_prototype_names then Inherited else Num 0)"

definition to_number :: "jsweight \<Rightarrow> double" where
  "to_number w = (case w of Num x \<Rightarrow> Finite x | Inherited \<Rightarrow> NaN)"

text \<open>
  \<^verbatim>\<open>obj[key] = v\<close> on an object that began as \<^verbatim>\<open>{}\<close>: an existing property keeps its
  place, a new one goes last. Assigning to \<^verbatim>\<open>__proto__\<close> sets the prototype of the
  object and gives it no own property.
\<close>

fun put :: "string \<Rightarrow> 'a \<Rightarrow> 'a jsobject \<Rightarrow> 'a jsobject" where
  "put key v [] = (if key = ''__proto__'' then [] else [(key, v)])"
| "put key v ((k, w) # rest) =
     (if key = ''__proto__'' then (k, w) # rest
      else if k = key then (key, v) # rest else (k, w) # put key v rest)"

text \<open>The message of the TypeError that reading a property of \<^verbatim>\<open>undefined\<close> throws.\<close>

definition cannot_read :: "string \<Rightarrow> string" where
  "cannot_read key =
     ''Cannot read properties of undefined (reading '' @ [CHR 0x27] @ key @ [CHR 0x27] @ '')''"

section \<open>Scores and comparisons\<close>

text \<open>The entry of \<^verbatim>\<open>scores[name]\<close> in the preview; the compare loop adds the formula.\<close>

record competency_score =
  raw :: jsnum
  weight :: jsweight
  weighted :: double

record scored_competency = competency_score +
  formula :: string

text \<open>
  What \<^verbatim>\<open>comparisons.push\<close> stores for one version. \<open>formulas\<close> and \<open>weights\<close> are
  \<^verbatim>\<open>version.config.competency_formulas\<close> and \<^verbatim>\<open>version.config.final_weights\<close> as
  they are, \<open>None\<close> when the configuration has no such property.
\<close>

record comparison =
  version_name :: string
  version_id :: nat
  description :: string
  final_score :: double
  competencies :: "scored_competency jsobject"
  formulas :: "string jsobject option"
  weights :: "jsnum jsobject option"

section \<open>calculateDifferences\<close>

text \<open>
  An entry of \<^verbatim>\<open>diff.weight_changes\<close>. A weight is \<open>None\<close> when that side has no such
  property (\<^verbatim>\<open>undefined\<close>); \<open>change\<close> is \<^verbatim>\<open>v2.weights[key] - v1.weights[key]\<close>, which
  is \<^verbatim>\<open>NaN\<close>, written \<open>None\<close>, when one of the two is \<^verbatim>\<open>undefined\<close>.
\<close>

record weight_change =
  competency :: string
  old_weight :: "jsnum option"
  new_weight :: "jsnum option"
  change :: "jsnum option"

definition minus_js :: "jsnum option \<Rightarrow> jsnum option \<Rightarrow> jsnum option" where
  "minus_js a b = (case (a, b) of (Some x, Some y) \<Rightarrow> Some (x - y) | _ \<Rightarrow> None)"

record formula_change =
  fc_competency :: string
  old_formula :: "string option"
  new_formula :: "string option"

record difference =
  d_from :: string
  d_to :: string
  score_change :: double
  weight_changes :: "weight_change list"
  formula_changes :: "formula_change list"

text \<open>
  \<^verbatim>\<open>for (const key in v1.weights) if (v1.weights[key] !== v2.weights[key]) push\<close>. The first
  argument is the list of the keys still to visit: the loop runs over the properties of
  the older side only. \<^verbatim>\<open>!==\<close> on two numbers (or two strings) is inequality, and
  \<^verbatim>\<open>undefined\<close> differs from every number and every string.
\<close>

fun weight_loop :: "string list \<Rightarrow> jsnum jsobject \<Rightarrow> jsnum jsobject \<Rightarrow> weight_change list" where
  "weight_loop [] w1 w2 = []"
| "weight_loop (key # ks) w1 w2 =
     (if property w1 key \<noteq> property w2 key
      then \<lparr>competency = key, old_weight = property w1 key, new_weight = property w2 key,
            change = minus_js (property w2 key) (property w1 key)\<rparr> # weight_loop ks w1 w2
      else weight_loop ks w1 w2)"

fun formula_loop :: "string list \<Rightarrow> string jsobject \<Rightarrow> string jsobject \<Rightarrow> formula_change list" where
  "formula_loop [] f1 f2 = []"
| "formula_loop (key # ks) f1 f2 =
     (if property f1 key \<noteq> property f2 key
      then \<lparr>fc_competency = key, old_formula = property f1 key, new_formula = property f2 key\<rparr>
             # formula_loop ks f1 f2
      else formula_loop ks f1 f2)"

text \<open>
  \<^verbatim>\<open>for ... in\<close> over \<^verbatim>\<open>undefined\<close> runs no iteration. With a property to visit on the
  older side, \<^verbatim>\<open>v2.weights[key]\<close> throws a TypeError when the newer side has no weights
  object at all.
\<close>

definition compare_weights ::
  "jsnum jsobject option \<Rightarrow> jsnum jsobject option \<Rightarrow> string + weight_change list" where
  "compare_weights w1 w2 =
     (case w1 of
        None \<Rightarrow> Inr []
      | Some o1 \<Rightarrow>
          (case map fst o1 of
             [] \<Rightarrow> Inr []
           | key # ks \<Rightarrow>
               (case w2 of
                  None \<Rightarrow> Inl (cannot_read key)
                | Some o2 \<Rightarrow> Inr (weight_loop (key # ks) o1 o2))))"

definition compare_formulas ::
  "string jsobject option \<Rightarrow> string jsobject option \<Rightarrow> string + formula_change list" where
  "compare_formulas f1 f2 =
     (case f1 of
        None \<Rightarrow> Inr []
      | Some o1 \<Rightarrow>
          (case map fst o1 of
             [] \<Rightarrow> Inr []
           | key # ks \<Rightarrow>
               (case f2 of
                  None \<Rightarrow> Inl (cannot_read key)
                | Some o2 \<Rightarrow> Inr (formula_loop (key # ks) o1 o2))))"

text \<open>The body of the loop of \<^verbatim>\<open>calculateDifferences\<close> for one \<open>i\<close>.\<close>

definition difference_of :: "comparison \<Rightarrow> comparison \<Rightarrow> string + difference" where
  "difference_of v1 v2 =
     (case compare_weights (weights v1) (weights v2) of
        Inl e \<Rightarrow> Inl e
      | Inr wc \<Rightarrow>
          (case compare_formulas (formulas v1) (formulas v2) of
             Inl e \<Rightarrow> Inl e
           | Inr fc \<Rightarrow>
               Inr \<lparr>d_from = version_name v1, d_to = version_name v2,
                    score_change = dsub (final_score v2) (final_score v1),
                    weight_changes = wc, formula_changes = fc\<rparr>))"

text \<open>
  \<^verbatim>\<open>for (let i = 1; i < comparisons.length; i++)\<close> with \<^verbatim>\<open>v1 = comparisons[i - 1]\<close> and
  \<^verbatim>\<open>v2 = comparisons[i]\<close>: one difference for each pair of neighbours, in order.
\<close>

fun calculateDifferences :: "comparison list \<Rightarrow> string + difference list" where
  "calculateDifferences (v1 # v2 # rest) =
     (case difference_of v1 v2 of
        Inl e \<Rightarrow> Inl e
      | Inr d \<Rightarrow>
          (case calculateDifferences (v2 # rest) of
             Inl e \<Rightarrow> Inl e
           | Inr ds \<Rightarrow> Inr (d # ds)))"
| "calculateDifferences [v1] = Inr []"
| "calculateDifferences [] = Inr []"

section \<open>The formula evaluator and the scoring calculator\<close>

text \<open>
  \<^verbatim>\<open>services/formulaEvaluator\<close> and \<^verbatim>\<open>services/scoringCalculator\<close> are required by
  the routes and are not among the sources, so the functions the routes call are
  parameters of the model. \<^verbatim>\<open>testFormula\<close> answers with an object
  \<^verbatim>\<open>{success, result, error}\<close>; \<^verbatim>\<open>validateFormula\<close> with \<^verbatim>\<open>{valid, error}\<close>;
  \<^verbatim>\<open>evaluate\<close> and \<^verbatim>\<open>calculateScores\<close> return their result, and the only failure a
  caller can see is an exception, \<open>Inl\<close> of its message. \<^verbatim>\<open>evaluate\<close> is handed
  \<^verbatim>\<open>test_data\<close> as the request has it, \<open>None\<close> when the request has none.
\<close>

type_synonym variables = "jsnum jsobject"

record test_response =
  success :: bool
  result :: jsnum
  test_error :: string

record validation =
  valid :: bool
  validation_error :: string

type_synonym testFormula = "string \<Rightarrow> variables \<Rightarrow> test_response"

type_synonym evaluate = "string \<Rightarrow> variables option \<Rightarrow> string + jsnum"

type_synonym validateFormula = "string \<Rightarrow> validation"

section \<open>Responses\<close>

text \<open>
  \<^verbatim>\<open>res.status(n).json({success: false, error: msg})\<close> is \<open>Reply n (Failure msg)\<close>, and
  \<^verbatim>\<open>res.json({success: true, ...})\<close> is \<open>Reply 200 (Success ...)\<close>; \<^verbatim>\<open>res.json\<close> with no
  status set answers 200.
\<close>

datatype 'a body = Failure string | Success 'a

datatype 'a response = Reply nat "'a body"

text \<open>\<^verbatim>\<open>!x\<close> for a string field of the request: missing or empty.\<close>

definition falsy :: "string option \<Rightarrow> bool" where
  "falsy x = (case x of None \<Rightarrow> True | Some v \<Rightarrow> v = [])"

section \<open>Preview\<close>

record preview_request =
  p_game_type :: "string option"
  p_formulas :: "string jsobject option"
  p_weights :: "jsnum jsobject option"
  p_test_variables :: "variables option"

record score_result =
  sr_final_score :: double
  sr_competencies :: "competency_score jsobject"

record preview_data =
  pd_scores :: score_result
  pd_test_variables :: variables

text \<open>
  The loop over \<^verbatim>\<open>Object.entries(formulas)\<close>, with \<open>scores\<close> and \<open>totalWeighted\<close> as
  accumulators. A formula that fails ends the request with the message naming the
  competency. The products and the sum are those of doubles.
\<close>

fun preview_loop ::
  "testFormula \<Rightarrow> jsnum jsobject \<Rightarrow> variables \<Rightarrow> string jsobject \<Rightarrow>
   competency_score jsobject \<Rightarrow> double \<Rightarrow> string + (competency_score jsobject \<times> double)" where
  "preview_loop tf ws tv [] scores totalWeighted = Inr (scores, totalWeighted)"
| "preview_loop tf ws tv ((name, f) # rest) scores totalWeighted =
     (let testResponse = tf f tv in
      if \<not> success testResponse
      then Inl (''Formula error in '' @ name @ '': '' @ test_error testResponse)
      else
        let rawScore = max 0 (min 100 (result testResponse));
            wt = weight_or_0 ws name;
            wtd = dmul (Finite rawScore) (to_number wt)
        in preview_loop tf ws tv rest
             (put name \<lparr>raw = rawScore, weight = wt, weighted = wtd\<rparr> scores)
             (dadd totalWeighted wtd))"

text \<open>
  The handler of \<^verbatim>\<open>POST /api/scoring/preview\<close>; \<^verbatim>\<open>previewScores\<close> of the controller is
  the same function with a shorter message for the missing fields, the first parameter.
\<close>

definition preview_handler :: "string \<Rightarrow> testFormula \<Rightarrow> preview_request \<Rightarrow> preview_data response" where
  "preview_handler missing tf req =
     (case (p_formulas req, p_weights req, p_test_variables req) of
        (Some fs, Some ws, Some tv) \<Rightarrow>
          if falsy (p_game_type req) then Reply 400 (Failure missing)
          else
            (case preview_loop tf ws tv fs [] (Finite 0) of
               Inl e \<Rightarrow> Reply 200 (Failure e)
             | Inr (scores, totalWeighted) \<Rightarrow>
                 Reply 200 (Success
                   \<lparr>pd_scores = \<lparr>sr_final_score = round2 totalWeighted, sr_competencies = scores\<rparr>,
                    pd_test_variables = tv\<rparr>))
      | _ \<Rightarrow> Reply 400 (Failure missing))"

definition preview :: "testFormula \<Rightarrow> preview_request \<Rightarrow> preview_data response" where
  "preview = preview_handler ''Missing required fields: game_type, formulas, weights, test_variables''"

definition previewScores :: "testFormula \<Rightarrow> preview_request \<Rightarrow> preview_data response" where
  "previewScores = preview_handler ''Missing required fields''"

section \<open>The store\<close>

text \<open>
  A scoring configuration as the routes read it: \<^verbatim>\<open>competency_formulas\<close> and
  \<^verbatim>\<open>final_weights\<close>, each of which a stored configuration may lack. \<^verbatim>\<open>settings\<close> is
  read by no route and is left out.
\<close>

record config =
  competency_formulas :: "string jsobject option"
  final_weights :: "jsnum jsobject option"

record version_row =
  v_id :: nat
  v_game_type :: string
  v_version_name :: string
  v_description :: string
  is_active :: bool
  v_config :: config
  created_by :: "string option"

type_synonym telemetry = "jsnum jsobject"

record session_row =
  s_id :: nat
  s_user_id :: string
  s_game_type :: string
  scoring_version_id :: nat
  status :: string
  final_scores :: score_result
  completed_at :: string

record receipt_row =
  session_id :: nat
  raw_data :: telemetry

text \<open>
  The three tables the routes use. The Supabase client (\<^verbatim>\<open>config/supabase\<close>) is not among
  the sources: a call to it resolves to \<^verbatim>\<open>{data, error}\<close> and does not throw, so each
  route takes the outcome of each of its calls as an input: the error of a call that
  fails, which then leaves its table as it was, or what the database generates (an id,
  a version name) for one that succeeds.
\<close>

record store =
  scoring_versions :: "version_row list"
  test_sessions :: "session_row list"
  action_receipts :: "receipt_row list"

section \<open>Compare\<close>

text \<open>
  The inner loop of the compare handlers over
  \<^verbatim>\<open>Object.entries(version.config.competency_formulas || {})\<close>. \<^verbatim>\<open>evaluate\<close> is called for
  every formula with \<^verbatim>\<open>test_data\<close> as it is; then \<^verbatim>\<open>version.config.final_weights[name]\<close>
  throws when there is no weights object.
\<close>

fun score_formulas ::
  "evaluate \<Rightarrow> variables option \<Rightarrow> jsnum jsobject option \<Rightarrow> string jsobject \<Rightarrow>
   scored_competency jsobject \<Rightarrow> double \<Rightarrow>
   string + (scored_competency jsobject \<times> double)" where
  "score_formulas ev td ws [] scores totalWeighted = Inr (scores, totalWeighted)"
| "score_formulas ev td ws ((name, f) # rest) scores totalWeighted =
     (case ev f td of
        Inl e \<Rightarrow> Inl e
      | Inr res \<Rightarrow>
          (case ws of
             None \<Rightarrow> Inl (cannot_read name)
           | Some w \<Rightarrow>
               let rawScore = max 0 (min 100 res);
                   wt = weight_or_0 w name;
                   wtd = dmul (Finite rawScore) (to_number wt)
               in score_formulas ev td ws rest
                    (put name \<lparr>raw = rawScore, weight = wt, weighted = wtd,
                               formula = f\<rparr> scores)
                    (dadd totalWeighted wtd)))"

definition score_version :: "evaluate \<Rightarrow> variables option \<Rightarrow> version_row \<Rightarrow> string + comparison" where
  "score_version ev td version =
     (case score_formulas ev td (final_weights (v_config version))
             (case competency_formulas (v_config version) of None \<Rightarrow> [] | Some fs \<Rightarrow> fs) []
             (Finite 0) of
        Inl e \<Rightarrow> Inl e
      | Inr (scores, totalWeighted) \<Rightarrow>
          Inr \<lparr>version_name = v_version_name version, version_id = v_id version,
               description = v_description version, final_score = round2 totalWeighted,
               competencies = scores, formulas = competency_formulas (v_config version),
               weights = final_weights (v_config version)\<rparr>)"

text \<open>\<^verbatim>\<open>for (const version of versions)\<close>, pushing one comparison for each version.\<close>

fun score_versions :: "evaluate \<Rightarrow> variables option \<Rightarrow> version_row list \<Rightarrow> string + comparison list" where
  "score_versions ev td [] = Inr []"
| "score_versions ev td (version # rest) =
     (case score_version ev td version of
        Inl e \<Rightarrow> Inl e
      | Inr c \<Rightarrow>
          (case score_versions ev td rest of
             Inl e \<Rightarrow> Inl e
           | Inr cs \<Rightarrow> Inr (c # cs)))"

record compare_request =
  c_game_type :: "string option"
  version_ids :: "nat list option"
  test_data :: "variables option"

text \<open>
  The answer of a compare handler; \<open>differences\<close> is \<open>None\<close> in the answer of
  \<^verbatim>\<open>compareVersions\<close>, which has no such property.
\<close>

record compare_data =
  comparisons :: "comparison list"
  differences :: "difference list option"
  cd_test_data :: "variables option"

text \<open>
  \<^verbatim>\<open>.eq('game_type', game_type).in('id', version_ids)\<close>: the rows of the table with that
  game type and one of the ids, in the order of the table.
\<close>

definition fetch_versions :: "store \<Rightarrow> string \<Rightarrow> nat list \<Rightarrow> version_row list" where
  "fetch_versions s gt ids =
     filter (\<lambda>v. v_game_type v = gt \<and> v_id v \<in> set ids) (scoring_versions s)"

text \<open>
  What the two compare handlers share: the check of the request, the fetch (\<open>fetch_error\<close>
  is its error when it fails), and the scoring of every fetched version. The last
  parameter is what the handler does with the comparisons.
\<close>

definition compare_handler ::
  "evaluate \<Rightarrow> string option \<Rightarrow> store \<Rightarrow> compare_request \<Rightarrow>
   (comparison list \<Rightarrow> compare_data response) \<Rightarrow> compare_data response" where
  "compare_handler ev fetch_error s req finish =
     (case version_ids req of
        None \<Rightarrow> Reply 400 (Failure ''Need at least 2 version IDs to compare'')
      | Some ids \<Rightarrow>
          if falsy (c_game_type req) \<or> length ids < 2
          then Reply 400 (Failure ''Need at least 2 version IDs to compare'')
          else
            (case fetch_error of
               Some e \<Rightarrow> Reply 500 (Failure e)
             | None \<Rightarrow>
                 let versions = fetch_versions s (case c_game_type req of None \<Rightarrow> [] | Some gt \<Rightarrow> gt) ids in
                 if length versions < 2
                 then Reply 404 (Failure ''Could not find all specified versions'')
                 else
                   (case score_versions ev (test_data req) versions of
                      Inl e \<Rightarrow> Reply 500 (Failure e)
                    | Inr cs \<Rightarrow> finish cs)))"

text \<open>\<^verbatim>\<open>compareVersions\<close> of the controller answers with the comparisons alone.\<close>

definition compareVersions ::
  "evaluate \<Rightarrow> string option \<Rightarrow> store \<Rightarrow> compare_request \<Rightarrow> compare_data response" where
  "compareVersions ev fetch_error s req =
     compare_handler ev fetch_error s req
       (\<lambda>cs. Reply 200 (Success \<lparr>comparisons = cs, differences = None,
                                  cd_test_data = test_data req\<rparr>))"

text \<open>
  The handler of \<^verbatim>\<open>POST /api/scoring/compare\<close> is an arrow function, so its \<^verbatim>\<open>this\<close> is
  the \<^verbatim>\<open>this\<close> of the module: the object \<^verbatim>\<open>module.exports\<close> was when the file began to
  load. The file gives that object no property (its last line replaces
  \<^verbatim>\<open>module.exports\<close> by the router), and \<^verbatim>\<open>calculateDifferences\<close> is a function
  declaration of the module, not a property of it. \<open>module_this\<close> is that object.
\<close>

definition module_this :: "(comparison list \<Rightarrow> string + difference list) jsobject" where
  "module_this = []"

text \<open>
  \<^verbatim>\<open>const differences = this.calculateDifferences(comparisons)\<close>: calling a property that
  is \<^verbatim>\<open>undefined\<close> throws a TypeError, which the \<^verbatim>\<open>catch\<close> of the handler answers
  with status 500.
\<close>

definition compare :: "evaluate \<Rightarrow> string option \<Rightarrow> store \<Rightarrow> compare_request \<Rightarrow> compare_data response" where
  "compare ev fetch_error s req =
     compare_handler ev fetch_error s req
       (\<lambda>cs. case property module_this ''calculateDifferences'' of
                None \<Rightarrow> Reply 500 (Failure ''this.calculateDifferences is not a function'')
              | Some f \<Rightarrow>
                  (case f cs of
                     Inl e \<Rightarrow> Reply 500 (Failure e)
                   | Inr ds \<Rightarrow>
                       Reply 200 (Success \<lparr>comparisons = cs, differences = Some ds,
                                            cd_test_data = test_data req\<rparr>)))"

section \<open>Submit\<close>

record submit_request =
  sub_game_type :: "string option"
  sub_user_id :: "string option"
  sub_raw_data :: "telemetry option"

type_synonym calculateScores = "string \<Rightarrow> config \<Rightarrow> telemetry \<Rightarrow> string + score_result"

text \<open>
  What the outside gives one submit request: the error of the select of the active
  configuration when it fails, the outcome of the insert into \<^verbatim>\<open>test_sessions\<close> (its
  error or the id of the new row), the error of the insert into \<^verbatim>\<open>action_receipts\<close>
  when it fails, and the clock (\<^verbatim>\<open>new Date().toISOString()\<close>).
\<close>

record submit_outcomes =
  select_error :: "string option"
  session_insert :: "string + nat"
  receipt_error :: "string option"
  now :: string

record submit_data =
  sd_session_id :: nat
  version_used :: string
  sd_scores :: score_result

text \<open>
  \<^verbatim>\<open>.eq('game_type', game_type).eq('is_active', true).single()\<close>: the one active row of
  the game type; \<^verbatim>\<open>single\<close> answers with an error unless there is exactly one.
\<close>

definition select_active :: "store \<Rightarrow> string \<Rightarrow> version_row option" where
  "select_active s gt =
     (case filter (\<lambda>v. v_game_type v = gt \<and> is_active v) (scoring_versions s) of
        [v] \<Rightarrow> Some v
      | _ \<Rightarrow> None)"

text \<open>
  The handler of \<^verbatim>\<open>POST /api/games/submit\<close> and \<^verbatim>\<open>submitGame\<close> of the controller, which
  differ in what they log only. The result is the response and the store afterwards.
\<close>

definition submitGame ::
  "calculateScores \<Rightarrow> submit_outcomes \<Rightarrow> store \<Rightarrow> submit_request \<Rightarrow> submit_data response \<times> store" where
  "submitGame calc out s req =
     (case (sub_game_type req, sub_user_id req, sub_raw_data req) of
        (Some gt, Some uid, Some rd) \<Rightarrow>
          if gt = [] \<or> uid = []
          then (Reply 400 (Failure ''Missing required fields: game_type, user_id, raw_data''), s)
          else
            (case (if select_error out = None then select_active s gt else None) of
               None \<Rightarrow>
                 (Reply 404 (Failure (''No active scoring configuration found for '' @ gt)), s)
             | Some cfg \<Rightarrow>
                 (case calc gt (v_config cfg) rd of
                    Inl e \<Rightarrow> (Reply 500 (Failure e), s)
                  | Inr scores \<Rightarrow>
                      (case session_insert out of
                         Inl e \<Rightarrow> (Reply 500 (Failure e), s)
                       | Inr sid \<Rightarrow>
                           let session = \<lparr>s_id = sid, s_user_id = uid, s_game_type = gt,
                                          scoring_version_id = v_id cfg, status = ''completed'',
                                          final_scores = scores, completed_at = now out\<rparr>;
                               s1 = s\<lparr>test_sessions := test_sessions s @ [session]\<rparr>
                           in
                             (case receipt_error out of
                                Some e \<Rightarrow> (Reply 500 (Failure e), s1)
                              | None \<Rightarrow>
                                  (Reply 200 (Success \<lparr>sd_session_id = s_id session,
                                                       version_used = v_version_name cfg,
                                                       sd_scores = scores\<rparr>),
                                   s1\<lparr>action_receipts := action_receipts s1 @
                                        [\<lparr>session_id = s_id session, raw_data = rd\<rparr>]\<rparr>)))))
      | _ \<Rightarrow> (Reply 400 (Failure ''Missing required fields: game_type, user_id, raw_data''), s))"

section \<open>Save\<close>

record save_request =
  sv_game_type :: "string option"
  sv_user_id :: "string option"
  sv_description :: "string option"
  sv_config :: "config option"

text \<open>
  What the outside gives one save request: the outcome of the call of
  \<^verbatim>\<open>get_next_version_name\<close> (its error or the name), the error of the update that
  deactivates when it fails, and the outcome of the insert (its error or the id of the new
  row).
\<close>

record save_outcomes =
  next_version_name :: "string + string"
  deactivate_error :: "string option"
  version_insert :: "string + nat"

record save_data =
  message :: string
  newVersion :: version_row

text \<open>
  The loop over \<^verbatim>\<open>Object.entries(config.competency_formulas || {})\<close>: the message of the
  first formula that is not valid, \<open>None\<close> when all are.
\<close>

fun validate_all :: "validateFormula \<Rightarrow> string jsobject \<Rightarrow> string option" where
  "validate_all vf [] = None"
| "validate_all vf ((name, f) # rest) =
     (let v = vf f in
      if \<not> valid v
      then Some (''Invalid formula for '' @ name @ '': '' @ validation_error v)
      else validate_all vf rest)"

text \<open>
  \<^verbatim>\<open>update({is_active: false}).eq('game_type', game_type).eq('is_active', true)\<close>. The
  handler awaits the update and drops what it resolves to, so an update that fails
  changes nothing and the handler goes on.
\<close>

definition deactivate :: "string \<Rightarrow> version_row list \<Rightarrow> version_row list" where
  "deactivate gt rows =
     map (\<lambda>v. if v_game_type v = gt \<and> is_active v then v\<lparr>is_active := False\<rparr> else v) rows"

text \<open>The handler of \<^verbatim>\<open>POST /api/scoring/save\<close>: the response and the store afterwards.\<close>

definition save ::
  "validateFormula \<Rightarrow> save_outcomes \<Rightarrow> store \<Rightarrow> save_request \<Rightarrow> save_data response \<times> store" where
  "save vf out s req =
     (case sv_config req of
        None \<Rightarrow> (Reply 400 (Failure ''Missing required fields: game_type, config''), s)
      | Some cfg \<Rightarrow>
          if falsy (sv_game_type req)
          then (Reply 400 (Failure ''Missing required fields: game_type, config''), s)
          else
            (case validate_all vf (case competency_formulas cfg of None \<Rightarrow> [] | Some fs \<Rightarrow> fs) of
               Some e \<Rightarrow> (Reply 400 (Failure e), s)
             | None \<Rightarrow>
                 (case next_version_name out of
                    Inl e \<Rightarrow> (Reply 500 (Failure e), s)
                  | Inr versionName \<Rightarrow>
                      let gt = (case sv_game_type req of None \<Rightarrow> [] | Some g \<Rightarrow> g);
                          s1 = (case deactivate_error out of
                                  Some e \<Rightarrow> s
                                | None \<Rightarrow> s\<lparr>scoring_versions := deactivate gt (scoring_versions s)\<rparr>)
                      in
                        (case version_insert out of
                           Inl e \<Rightarrow> (Reply 500 (Failure e), s1)
                         | Inr new_id \<Rightarrow>
                             let row = \<lparr>v_id = new_id, v_game_type = gt,
                                        v_version_name = versionName,
                                        v_description =
                                          (if falsy (sv_description req) then ''Version '' @ versionName
                                           else (case sv_description req of None \<Rightarrow> [] | Some d \<Rightarrow> d)),
                                        is_active = True, v_config = cfg,
                                        created_by = sv_user_id req\<rparr>
                             in
                               (Reply 200 (Success \<lparr>message = ''Saved as '' @ versionName,
                                                    newVersion = row\<rparr>),
                                s1\<lparr>scoring_versions := scoring_versions s1 @ [row]\<rparr>)))))"

section \<open>Notions used in the statements\<close>

text \<open>The property names of an object that may be absent, and the value of one of them.\<close>

definition names_of :: "'a jsobject option \<Rightarrow> string set" where
  "names_of obj = (case obj of None \<Rightarrow> {} | Some ps \<Rightarrow> fst ` set ps)"

definition value_of :: "'a jsobject option \<Rightarrow> string \<Rightarrow> 'a option" where
  "value_of obj key = (case obj of None \<Rightarrow> None | Some ps \<Rightarrow> property ps key)"

definition entries_of :: "'a jsobject option \<Rightarrow> (string \<times> 'a) set" where
  "entries_of obj = (case obj of None \<Rightarrow> {} | Some ps \<Rightarrow> set ps)"

text \<open>
  What the compare handlers are to answer, said without the loops. \<open>score_of\<close> is the score
  of one formula whose evaluation returns: the result clamped to the interval from 0 to
  100, the weight \<^verbatim>\<open>final_weights[name] || 0\<close>, and their product.
\<close>

definition result_of :: "evaluate \<Rightarrow> variables option \<Rightarrow> string \<Rightarrow> jsnum" where
  "result_of ev td f = (case ev f td of Inl e \<Rightarrow> 0 | Inr r \<Rightarrow> r)"

definition score_of ::
  "evaluate \<Rightarrow> variables option \<Rightarrow> jsnum jsobject \<Rightarrow> string \<times> string \<Rightarrow> scored_competency" where
  "score_of ev td ws nf =
     \<lparr>raw = max 0 (min 100 (result_of ev td (snd nf))),
      weight = weight_or_0 ws (fst nf),
      weighted = dmul (Finite (max 0 (min 100 (result_of ev td (snd nf)))))
                   (to_number (weight_or_0 ws (fst nf))),
      formula = snd nf\<rparr>"

text \<open>
  The message of the first formula, in the order of the object, whose evaluation throws
  or whose weight cannot be read because the version has no weights object.
\<close>

definition first_failure ::
  "evaluate \<Rightarrow> variables option \<Rightarrow> jsnum jsobject option \<Rightarrow> string jsobject \<Rightarrow> string option" where
  "first_failure ev td ws fs =
     map_option (\<lambda>nf. case ev (snd nf) td of Inl e \<Rightarrow> e | Inr r \<Rightarrow> cannot_read (fst nf))
       (find (\<lambda>nf. isl (ev (snd nf) td) \<or> ws = None) fs)"

definition formulas_of :: "version_row \<Rightarrow> string jsobject" where
  "formulas_of v = (case competency_formulas (v_config v) of None \<Rightarrow> [] | Some fs \<Rightarrow> fs)"

definition weights_of :: "version_row \<Rightarrow> jsnum jsobject" where
  "weights_of v = (case final_weights (v_config v) of None \<Rightarrow> [] | Some ws \<Rightarrow> ws)"

definition version_failure :: "evaluate \<Rightarrow> variables option \<Rightarrow> version_row \<Rightarrow> string option" where
  "version_failure ev td v = first_failure ev td (final_weights (v_config v)) (formulas_of v)"

text \<open>
  The comparison of a version all of whose formulas evaluate: one score for each formula
  in order, save one named \<^verbatim>\<open>__proto__\<close>, and the final score rounded from the sum, from
  left to right, of the weighted values of all formulas.
\<close>

definition expected_comparison :: "evaluate \<Rightarrow> variables option \<Rightarrow> version_row \<Rightarrow> comparison" where
  "expected_comparison ev td v =
     \<lparr>version_name = v_version_name v, version_id = v_id v, description = v_description v,
      final_score =
        round2 (foldl dadd (Finite 0)
                  (map (\<lambda>nf. weighted (score_of ev td (weights_of v) nf)) (formulas_of v))),
      competencies =
        map (\<lambda>nf. (fst nf, score_of ev td (weights_of v) nf))
          (filter (\<lambda>nf. fst nf \<noteq> ''__proto__'') (formulas_of v)),
      formulas = competency_formulas (v_config v),
      weights = final_weights (v_config v)\<rparr>"

text \<open>
  For the fetched versions in order: the message of the first version that has a failure,
  or else the comparisons of all of them.
\<close>

definition expected_comparisons ::
  "evaluate \<Rightarrow> variables option \<Rightarrow> version_row list \<Rightarrow> string + comparison list" where
  "expected_comparisons ev td vs =
     (case find (\<lambda>x. x \<noteq> None) (map (version_failure ev td) vs) of
        Some (Some e) \<Rightarrow> Inl e
      | _ \<Rightarrow> Inr (map (expected_comparison ev td) vs))"

text \<open>
  What the preview is to answer, said without the loop. \<open>preview_score\<close> is the score of
  one formula whose test succeeds: the result clamped to the interval from 0 to 100, the
  weight \<^verbatim>\<open>weights[name] || 0\<close>, and their product. \<open>total_weighted\<close> is the sum of the
  weighted values, from left to right and in doubles. \<open>half_up_2\<close> is the rounding of a
  real number to two decimals, a tie going up. \<open>hundredths\<close> is the integer that
  \<^verbatim>\<open>Math.round(t * 100)\<close> gives, when it is finite.
\<close>

definition preview_score ::
  "testFormula \<Rightarrow> variables \<Rightarrow> jsnum jsobject \<Rightarrow> string \<times> string \<Rightarrow> competency_score" where
  "preview_score tf tv ws nf =
     \<lparr>raw = max 0 (min 100 (result (tf (snd nf) tv))),
      weight = weight_or_0 ws (fst nf),
      weighted = dmul (Finite (max 0 (min 100 (result (tf (snd nf) tv)))))
                   (to_number (weight_or_0 ws (fst nf)))\<rparr>"

definition total_weighted ::
  "testFormula \<Rightarrow> variables \<Rightarrow> jsnum jsobject \<Rightarrow> string jsobject \<Rightarrow> double" where
  "total_weighted tf tv ws fs =
     foldl dadd (Finite 0) (map (\<lambda>nf. weighted (preview_score tf tv ws nf)) fs)"

definition half_up_2 :: "real \<Rightarrow> real" where
  "half_up_2 x = real_of_int \<lfloor>x * 100 + 1 / 2\<rfloor> / 100"

definition hundredths :: "double \<Rightarrow> int option" where
  "hundredths t =
     (case Math_round (dmul t (Finite 100)) of Finite r \<Rightarrow> Some \<lfloor>r\<rfloor> | _ \<Rightarrow> None)"

section \<open>Example inputs\<close>

text \<open>
  A small evaluator for the examples: a formula is the numeral \<^verbatim>\<open>50\<close> or \<^verbatim>\<open>150\<close>, or the
  name of a variable, which throws when the variable is not defined.
\<close>

definition example_evaluate :: evaluate where
  "example_evaluate f td =
     (if f = ''50'' then Inr 50
      else if f = ''150'' then Inr 150
      else
        (case value_of td f of
           None \<Rightarrow> Inl (''Undefined symbol '' @ f)
         | Some x \<Rightarrow> Inr x))"

definition example_testFormula :: testFormula where
  "example_testFormula f tv =
     (case example_evaluate f (Some tv) of
        Inl e \<Rightarrow> \<lparr>success = False, result = 0, test_error = e\<rparr>
      | Inr x \<Rightarrow> \<lparr>success = True, result = x, test_error = []\<rparr>)"

definition example_validateFormula :: validateFormula where
  "example_validateFormula f =
     (if f = [] then \<lparr>valid = False, validation_error = ''Empty formula''\<rparr>
      else \<lparr>valid = True, validation_error = []\<rparr>)"

definition example_calculateScores :: calculateScores where
  "example_calculateScores gt cfg rd =
     (case rd of
        [] \<Rightarrow> Inl ''Formula error in focus: Undefined symbol accuracy''
      | _ \<Rightarrow> Inr \<lparr>sr_final_score = Finite 40,
                  sr_competencies =
                    [(''focus'', \<lparr>raw = 80, weight = Num (1 / 2), weighted = Finite 40\<rparr>)]\<rparr>)"

definition config_old :: config where
  "config_old =
     \<lparr>competency_formulas = Some [(''focus'', ''150'')],
      final_weights = Some [(''focus'', 1 / 4)]\<rparr>"

definition config_new :: config where
  "config_new =
     \<lparr>competency_formulas = Some [(''focus'', ''150''), (''memory'', ''50'')],
      final_weights = Some [(''focus'', 1 / 2), (''memory'', 1 / 4)]\<rparr>"

definition version_old :: version_row where
  "version_old =
     \<lparr>v_id = 1, v_game_type = ''memory'', v_version_name = ''v1'', v_description = ''first'',
      is_active = False, v_config = config_old, created_by = None\<rparr>"

definition version_new :: version_row where
  "version_new =
     \<lparr>v_id = 2, v_game_type = ''memory'', v_version_name = ''v2'', v_description = ''second'',
      is_active = True, v_config = config_new, created_by = None\<rparr>"

definition example_store :: store where
  "example_store =
     \<lparr>scoring_versions = [version_old, version_new], test_sessions = [], action_receipts = []\<rparr>"

definition comparison_old :: comparison where
  "comparison_old =
     \<lparr>version_name = ''v1'', version_id = 1, description = ''first'',
      final_score = Finite 25,
      competencies =
        [(''focus'', \<lparr>raw = 100, weight = Num (1 / 4), weighted = Finite 25,
                      formula = ''150''\<rparr>)],
      formulas = Some [(''focus'', ''150'')],
      weights = Some [(''focus'', 1 / 4)]\<rparr>"

definition comparison_new :: comparison where
  "comparison_new =
     \<lparr>version_name = ''v2'', version_id = 2, description = ''second'',
      final_score = Finite (125 / 2),
      competencies =
        [(''focus'', \<lparr>raw = 100, weight = Num (1 / 2), weighted = Finite 50,
                      formula = ''150''\<rparr>),
         (''memory'', \<lparr>raw = 50, weight = Num (1 / 4), weighted = Finite (25 / 2),
                       formula = ''50''\<rparr>)],
      formulas = Some [(''focus'', ''150''), (''memory'', ''50'')],
      weights = Some [(''focus'', 1 / 2), (''memory'', 1 / 4)]\<rparr>"

definition compare_request_without_test_data :: compare_request where
  "compare_request_without_test_data =
     \<lparr>c_game_type = Some ''memory'', version_ids = Some [1, 2], test_data = None\<rparr>"

definition example_preview_request :: preview_request where
  "example_preview_request =
     \<lparr>p_game_type = Some ''memory'',
      p_formulas = Some [(''focus'', ''150''), (''memory'', ''accuracy'')],
      p_weights = Some [(''focus'', 1 / 2), (''memory'', 1 / 4)],
      p_test_variables = Some [(''accuracy'', 80)]\<rparr>"

definition example_submit_request :: submit_request where
  "example_submit_request =
     \<lparr>sub_game_type = Some ''memory'', sub_user_id = Some ''u1'',
      sub_raw_data = Some [(''hits'', 8)]\<rparr>"

definition example_save_request :: save_request where
  "example_save_request =
     \<lparr>sv_game_type = Some ''memory'', sv_user_id = Some ''u1'', sv_description = None,
      sv_config = Some config_new\<rparr>"

definition failing_submit_request :: submit_request where
  "failing_submit_request =
     \<lparr>sub_game_type = Some ''memory'', sub_user_id = Some ''u1'', sub_raw_data = Some []\<rparr>"

definition submit_outcomes_ok :: submit_outcomes where
  "submit_outcomes_ok =
     \<lparr>select_error = None, session_insert = Inr 7, receipt_error = None,
      now = ''2026-01-01T00:00:00.000Z''\<rparr>"

definition submit_outcomes_receipt_fails :: submit_outcomes where
  "submit_outcomes_receipt_fails =
     \<lparr>select_error = None, session_insert = Inr 7, receipt_error = Some ''insert failed'',
      now = ''2026-01-01T00:00:00.000Z''\<rparr>"

definition config_invalid :: config where
  "config_invalid =
     \<lparr>competency_formulas = Some [(''focus'', ''150''), (''memory'', [])],
      final_weights = Some [(''focus'', 1 / 2), (''memory'', 1 / 4)]\<rparr>"

definition invalid_save_request :: save_request where
  "invalid_save_request =
     \<lparr>sv_game_type = Some ''memory'', sv_user_id = Some ''u1'', sv_description = None,
      sv_config = Some config_invalid\<rparr>"

definition save_outcomes_ok :: save_outcomes where
  "save_outcomes_ok =
     \<lparr>next_version_name = Inr ''v3'', deactivate_error = None, version_insert = Inr 3\<rparr>"

definition save_outcomes_deactivation_fails :: save_outcomes where
  "save_outcomes_deactivation_fails =
     \<lparr>next_version_name = Inr ''v3'', deactivate_error = Some ''timeout'',
      version_insert = Inr 3\<rparr>"

definition version_saved :: version_row where
  "version_saved =
     \<lparr>v_id = 3, v_game_type = ''memory'', v_version_name = ''v3'',
      v_description = ''Version v3'', is_active = True, v_config = config_new,
      created_by = Some ''u1''\<rparr>"

definition example_session :: session_row where
  "example_session =
     \<lparr>s_id = 7, s_user_id = ''u1'', s_game_type = ''memory'', scoring_version_id = 2,
      status = ''completed'',
      final_scores = \<lparr>sr_final_score = Finite 40,
        sr_competencies =
          [(''focus'', \<lparr>raw = 80, weight = Num (1 / 2), weighted = Finite 40\<rparr>)]\<rparr>,
      completed_at = ''2026-01-01T00:00:00.000Z''\<rparr>"

text \<open>
  A configuration with a competency named \<open>toString\<close> and no weight for it, and the
  comparison the compare handlers compute for it.
\<close>

definition config_inherited :: config where
  "config_inherited =
     \<lparr>competency_formulas = Some [(''toString'', ''50'')], final_weights = Some []\<rparr>"

definition version_inherited :: version_row where
  "version_inherited =
     \<lparr>v_id = 4, v_game_type = ''memory'', v_version_name = ''v4'', v_description = ''fourth'',
      is_active = False, v_config = config_inherited, created_by = None\<rparr>"

definition comparison_inherited :: comparison where
  "comparison_inherited =
     \<lparr>version_name = ''v4'', version_id = 4, description = ''fourth'', final_score = NaN,
      competencies =
        [(''toString'', \<lparr>raw = 50, weight = Inherited, weighted = NaN, formula = ''50''\<rparr>)],
      formulas = Some [(''toString'', ''50'')],
      weights = Some []\<rparr>"

definition submit_outcomes_session_fails :: submit_outcomes where
  "submit_outcomes_session_fails =
     \<lparr>select_error = None, session_insert = Inl ''insert failed'', receipt_error = None,
      now = ''2026-01-01T00:00:00.000Z''\<rparr>"

text \<open>A version whose formula reads a variable, and a request that compares it.\<close>

definition config_variable :: config where
  "config_variable =
     \<lparr>competency_formulas = Some [(''memory'', ''accuracy'')],
      final_weights = Some [(''memory'', 1)]\<rparr>"

definition version_variable :: version_row where
  "version_variable =
     \<lparr>v_id = 5, v_game_type = ''memory'', v_version_name = ''v5'', v_description = ''fifth'',
      is_active = False, v_config = config_variable, created_by = None\<rparr>"

definition variable_store :: store where
  "variable_store =
     \<lparr>scoring_versions = [version_old, version_variable], test_sessions = [],
      action_receipts = []\<rparr>"

definition variable_compare_request :: compare_request where
  "variable_compare_request =
     \<lparr>c_game_type = Some ''memory'', version_ids = Some [1, 5], test_data = None\<rparr>"

text \<open>
  Three preview requests with one competency and the raw score 1: a weight just
  below 0.335, a weight of about \<open>3.9 * 10 ^ 13\<close>, and a competency named \<^verbatim>\<open>__proto__\<close>
  with the formula \<^verbatim>\<open>50\<close> and the weight 1.
\<close>

definition tie_preview_request :: preview_request where
  "tie_preview_request =
     \<lparr>p_game_type = Some ''memory'',
      p_formulas = Some [(''focus'', ''accuracy'')],
      p_weights = Some [(''focus'', 377176468792279 / 1125899906842624)],
      p_test_variables = Some [(''accuracy'', 1)]\<rparr>"

definition large_preview_request :: preview_request where
  "large_preview_request =
     \<lparr>p_game_type = Some ''memory'',
      p_formulas = Some [(''focus'', ''accuracy'')],
      p_weights = Some [(''focus'', 5030854459038859 / 128)],
      p_test_variables = Some [(''accuracy'', 1)]\<rparr>"

definition proto_preview_request :: preview_request where
  "proto_preview_request =
     \<lparr>p_game_type = Some ''memory'',
      p_formulas = Some [(''__proto__'', ''50'')],
      p_weights = Some [(''__proto__'', 1)],
      p_test_variables = Some [(''accuracy'', 1)]\<rparr>"

section \<open>Facts about doubles and objects\<close>

lemma round_even_of_int: "round_even (real_of_int n) = n"
  by (simp add: round_even_def)

text \<open>
  A real number with at most 53 significant bits, whose last bit has an exponent in the
  range of the doubles, is a double: rounding leaves it as it is.
\<close>

lemma fl_exact:
  assumes x: "x = real_of_int m * 2 powi e" and m: "\<bar>m\<bar> < 2 ^ 53"
    and e: "- 1074 \<le> e" "e \<le> 971"
  shows "fl x = Finite x"
proof (cases "x = 0")
  case True
  then show ?thesis by (simp add: fl_def)
next
  case False
  define L where "L = \<lfloor>log 2 \<bar>x\<bar>\<rfloor>"
  define E where "E = max (L - 52) (- 1074)"
  have pos: "0 < \<bar>x\<bar>" using False by simp
  have "\<bar>x\<bar> = real_of_int \<bar>m\<bar> * 2 powi e"
    using x by (simp add: abs_mult)
  also have "\<dots> < 2 ^ 53 * 2 powi e"
    using m by (intro mult_strict_right_mono) (auto simp flip: of_int_less_iff)
  finally have lt: "\<bar>x\<bar> < 2 ^ 53 * 2 powi e" .
  have "2 ^ 53 * 2 powi e = 2 powr (53 + real_of_int e)"
    by (simp add: powr_add powr_real_of_int' flip: powr_realpow)
  with lt have "log 2 \<bar>x\<bar> < 53 + real_of_int e"
    using pos by (simp add: log_less_iff)
  then have "L < 53 + e" unfolding L_def by linarith
  with e have Ee: "E \<le> e" unfolding E_def by simp
  define k where "k = nat (e - E)"
  have pw: "(2::real) powi e = 2 ^ k * 2 powi E"
  proof -
    have "(2::real) powi e = 2 powi (int k + E)" using Ee by (simp add: k_def)
    also have "\<dots> = 2 powi int k * 2 powi E" by (simp add: power_int_add)
    finally show ?thesis by simp
  qed
  have nz: "(2::real) powi E \<noteq> 0" by simp
  have quot: "x / 2 powi E = real_of_int (m * 2 ^ k)"
    using nz by (simp add: x pw)
  have y: "real_of_int (round_even (x / 2 powi E)) * 2 powi E = x"
    unfolding quot round_even_of_int using nz by (simp add: x pw)
  have "(2::real) ^ 53 * 2 powi e \<le> 2 ^ 53 * 2 powi 971"
    using e by (intro mult_left_mono power_int_increasing) auto
  also have "\<dots> = 2 ^ 1024"
    by (simp add: power_int_def flip: power_add)
  finally have small: "\<bar>x\<bar> < 2 ^ 1024"
    using lt by linarith
  show ?thesis
    using False y small
    by (simp add: fl_def Let_def flip: L_def E_def)
qed

text \<open>The doubles that the examples compute.\<close>

lemma fl_values:
  "fl 20 = Finite 20" "fl 25 = Finite 25" "fl 50 = Finite 50" "fl 70 = Finite 70"
  "fl 2500 = Finite 2500" "fl 5000 = Finite 5000" "fl 6250 = Finite 6250"
  "fl 7000 = Finite 7000"
  "fl (25 / 2) = Finite (25 / 2)" "fl (75 / 2) = Finite (75 / 2)"
  "fl (125 / 2) = Finite (125 / 2)" "fl (1 / 4) = Finite (1 / 4)"
  using fl_exact [of 20 20 0] fl_exact [of 25 25 0] fl_exact [of 50 50 0]
    fl_exact [of 70 70 0] fl_exact [of 2500 2500 0] fl_exact [of 5000 5000 0]
    fl_exact [of 6250 6250 0] fl_exact [of 7000 7000 0]
    fl_exact [of "25 / 2" 25 "- 1"] fl_exact [of "75 / 2" 75 "- 1"]
    fl_exact [of "125 / 2" 125 "- 1"] fl_exact [of "1 / 4" 1 "- 2"]
  by simp_all

text \<open>
  A double minus itself is 0 when it is finite, and \<^verbatim>\<open>NaN\<close> when it is an infinity or
  \<^verbatim>\<open>NaN\<close>.
\<close>

lemma dsub_self: "dsub d d = (if is_finite d then Finite 0 else NaN)"
  by (cases d) (simp_all add: dsub_def is_finite_def fl_def)

lemma round2_NaN: "round2 NaN = NaN"
  by (simp add: round2_def)

lemma round_even_error: "\<bar>real_of_int (round_even z) - z\<bar> \<le> 1 / 2"
  unfolding round_even_def Let_def by (auto split: if_splits)

lemma floor_log2_bounds:
  assumes "x \<noteq> 0"
  shows "2 powi \<lfloor>log 2 \<bar>x\<bar>\<rfloor> \<le> \<bar>x\<bar>" and "\<bar>x\<bar> < 2 powi (\<lfloor>log 2 \<bar>x\<bar>\<rfloor> + 1)"
proof -
  define L where "L = \<lfloor>log 2 \<bar>x\<bar>\<rfloor>"
  have pos: "0 < \<bar>x\<bar>" using assms by simp
  have "2 powr real_of_int L \<le> \<bar>x\<bar> \<and> \<bar>x\<bar> < 2 powr (real_of_int L + 1)"
    using pos floor_log_eq_powr_iff [of "\<bar>x\<bar>" 2 L] by (simp add: L_def)
  moreover have "(2::real) powr real_of_int L = 2 powi L"
    by (simp add: powr_real_of_int')
  moreover have "(2::real) powr (real_of_int L + 1) = 2 powi (L + 1)"
    using powr_real_of_int' [of 2 "L + 1"] by simp
  ultimately show "2 powi \<lfloor>log 2 \<bar>x\<bar>\<rfloor> \<le> \<bar>x\<bar>" and "\<bar>x\<bar> < 2 powi (\<lfloor>log 2 \<bar>x\<bar>\<rfloor> + 1)"
    by (simp_all add: L_def)
qed

text \<open>
  The double nearest to a real number of at most \<open>2 ^ 51\<close> in absolute value is finite,
  and differs from it by at most the relative error \<open>2 ^ - 53\<close>, or, for a number so small
  that the last bit has the exponent \<open>-1074\<close>, by at most \<open>2 ^ - 1075\<close>.
\<close>

lemma fl_error:
  assumes hi: "\<bar>x\<bar> \<le> 2 ^ 51"
  shows "\<exists>y. fl x = Finite y \<and> \<bar>y - x\<bar> \<le> \<bar>x\<bar> / 2 ^ 53 + 2 powi (- 1075)"
proof (cases "x = 0")
  case True
  have "(0::real) \<le> 2 powi (- 1075)" by (rule zero_le_power_int) simp
  with True show ?thesis by (simp add: fl_def del: power_int_minus)
next
  case False
  define L where "L = \<lfloor>log 2 \<bar>x\<bar>\<rfloor>"
  define e where "e = max (L - 52) (- 1074)"
  from False have b: "2 powi L \<le> \<bar>x\<bar>" "\<bar>x\<bar> < 2 powi (L + 1)"
    unfolding L_def by (rule floor_log2_bounds)+
  have Lhi: "L < 52"
  proof (rule ccontr)
    assume "\<not> L < 52"
    then have "(2::real) powi 52 \<le> 2 powi L" by (intro power_int_increasing) auto
    with b(1) hi show False by simp
  qed
  then have e1: "e \<le> - 1" by (simp add: e_def)
  have p: "(0::real) < 2 powi e" by simp
  let ?n = "round_even (x / 2 powi e)"
  let ?y = "real_of_int ?n * 2 powi e"
  have "?y - x = (real_of_int ?n - x / 2 powi e) * 2 powi e"
    using p by (simp add: field_simps)
  then have "\<bar>?y - x\<bar> = \<bar>real_of_int ?n - x / 2 powi e\<bar> * 2 powi e"
    using p by (simp add: abs_mult)
  also have "\<dots> \<le> 1 / 2 * 2 powi e"
    using round_even_error [of "x / 2 powi e"] p by (intro mult_right_mono) auto
  finally have err: "\<bar>?y - x\<bar> \<le> 2 powi e / 2" by simp
  have "(2::real) powi e \<le> 2 powi (- 1)" using e1 by (intro power_int_increasing) auto
  then have e_small: "(2::real) powi e \<le> 1 / 2" by (simp add: power_int_minus)
  have "\<bar>?y\<bar> \<le> \<bar>x\<bar> + 2 powi e / 2" using err by linarith
  also have "\<dots> \<le> 2 ^ 51 + 1 / 4" using hi e_small by linarith
  also have "\<dots> < (2::real) ^ 1024" by simp
  finally have fin: "\<not> 2 ^ 1024 \<le> \<bar>?y\<bar>" by simp
  have fl: "fl x = Finite ?y"
    using False fin by (simp add: fl_def Let_def flip: L_def e_def)
  have half: "(2::real) powi e / 2 = 2 powi (e - 1)"
    by (simp add: power_int_diff)
  have "2 powi e / 2 \<le> \<bar>x\<bar> / 2 ^ 53 + 2 powi (- 1075)"
  proof (cases "- 1074 \<le> L - 52")
    case True
    then have "e = L - 52" by (simp add: e_def)
    then have "(2::real) powi e / 2 = 2 powi L / 2 ^ 53"
      by (simp add: power_int_diff)
    also have "\<dots> \<le> \<bar>x\<bar> / 2 ^ 53" using b(1) by (simp add: divide_right_mono)
    finally have "(2::real) powi e / 2 \<le> \<bar>x\<bar> / 2 ^ 53" .
    moreover have "(0::real) \<le> 2 powi (- 1075)" by (rule zero_le_power_int) simp
    ultimately show ?thesis by linarith
  next
    case False
    then have "e - 1 = - 1075" by (simp add: e_def)
    with half have "(2::real) powi e / 2 = 2 powi (- 1075)" by (simp only:)
    moreover have "0 \<le> \<bar>x\<bar> / 2 ^ 53" by simp
    ultimately show ?thesis by linarith
  qed
  with err have "\<bar>?y - x\<bar> \<le> \<bar>x\<bar> / 2 ^ 53 + 2 powi (- 1075)" by (rule order_trans)
  with fl show ?thesis by blast
qed

lemma tiny: "(0::real) \<le> 2 powi (- 1075)" "(2::real) powi (- 1075) \<le> 1 / 1024"
proof -
  show "(0::real) \<le> 2 powi (- 1075)" by (rule zero_le_power_int) simp
  have "(2::real) powi (- 1075) \<le> 2 powi (- 10)" by (rule power_int_increasing) simp_all
  also have "\<dots> = 1 / 1024" by (simp add: power_int_minus inverse_eq_divide)
  finally show "(2::real) powi (- 1075) \<le> 1 / 1024" .
qed

text \<open>
  A double that is the quotient of an integer of at most \<open>2 ^ 50\<close> in absolute value by 100
  is rounded to itself.
\<close>

lemma round2_of_hundredths:
  assumes k: "\<bar>k\<bar> \<le> 2 ^ 50"
  shows "round2 (ddiv (Finite (real_of_int k)) (Finite 100)) =
         ddiv (Finite (real_of_int k)) (Finite 100)"
proof -
  define d where "d = (2::real) powi (- 1075)"
  have d: "0 \<le> d" "d \<le> 1 / 1024" unfolding d_def by (rule tiny)+
  define K where "K = \<bar>real_of_int k\<bar>"
  have K0: "0 \<le> K" by (simp add: K_def)
  from k have "real_of_int \<bar>k\<bar> \<le> real_of_int (2 ^ 50)" by (simp only: of_int_le_iff)
  then have K2: "K \<le> 2 ^ 50" by (simp add: K_def)
  let ?x = "real_of_int k / 100"
  have ax: "\<bar>?x\<bar> = K / 100" by (simp add: K_def)
  have "\<bar>?x\<bar> \<le> 2 ^ 51" using K0 K2 unfolding ax by simp
  then obtain f where f: "fl ?x = Finite f" and ferr: "\<bar>f - ?x\<bar> \<le> \<bar>?x\<bar> / 2 ^ 53 + d"
    unfolding d_def using fl_error by blast
  from ferr have "\<bar>f - ?x\<bar> * 100 \<le> (K / 100 / 2 ^ 53 + d) * 100"
    unfolding ax by (intro mult_right_mono) simp_all
  moreover have "\<bar>f - ?x\<bar> * 100 = \<bar>f * 100 - real_of_int k\<bar>"
  proof -
    have "f * 100 - real_of_int k = (f - ?x) * 100" by simp
    then have "\<bar>f * 100 - real_of_int k\<bar> = \<bar>f - ?x\<bar> * \<bar>100\<bar>" by (simp only: abs_mult)
    then show ?thesis by simp
  qed
  ultimately have f1: "\<bar>f * 100 - real_of_int k\<bar> \<le> K / 2 ^ 53 + d * 100"
    by (simp add: field_simps)
  then have f2: "\<bar>f * 100\<bar> \<le> K + K / 2 ^ 53 + d * 100"
    unfolding K_def by linarith
  have "\<bar>f * 100\<bar> \<le> 2 ^ 51" using f2 K0 K2 d by simp
  then obtain p where p: "fl (f * 100) = Finite p"
    and perr: "\<bar>p - f * 100\<bar> \<le> \<bar>f * 100\<bar> / 2 ^ 53 + d"
    unfolding d_def using fl_error by blast
  have "\<bar>f * 100\<bar> / 2 ^ 53 \<le> (K + K / 2 ^ 53 + d * 100) / 2 ^ 53"
    using f2 by (simp add: divide_right_mono)
  with perr f1 have "\<bar>p - real_of_int k\<bar> \<le>
      (K + K / 2 ^ 53 + d * 100) / 2 ^ 53 + d + (K / 2 ^ 53 + d * 100)"
    by linarith
  also have "\<dots> < 1 / 2" using K0 K2 d by (simp add: add_divide_distrib)
  finally have "real_of_int k \<le> p + 1 / 2" "p + 1 / 2 < real_of_int k + 1" by linarith+
  then have "\<lfloor>p + 1 / 2\<rfloor> = k" by linarith
  with f p show ?thesis by (simp add: round2_def)
qed

text \<open>
  \<^verbatim>\<open>Math.round(t * 100) / 100\<close> of a finite double \<open>t\<close> is the double nearest to the
  half-up rounding to two decimals, not of \<open>t\<close>, but of a number next to it: the product
  \<open>t * 100\<close> is rounded to a double before \<^verbatim>\<open>Math.round\<close> sees it.
\<close>

lemma round2_half_up:
  assumes "\<bar>t\<bar> * 100 \<le> 2 ^ 51"
  shows "\<exists>t'. \<bar>t' - t\<bar> \<le> \<bar>t\<bar> / 2 ^ 53 + 2 powi (- 1075) \<and>
              round2 (Finite t) = fl (half_up_2 t')"
proof -
  define d where "d = (2::real) powi (- 1075)"
  have d: "0 \<le> d" unfolding d_def by (rule tiny)
  have "\<bar>t * 100\<bar> \<le> 2 ^ 51" using assms by (simp add: abs_mult)
  then obtain p where p: "fl (t * 100) = Finite p"
    and perr: "\<bar>p - t * 100\<bar> \<le> \<bar>t * 100\<bar> / 2 ^ 53 + d"
    unfolding d_def using fl_error by blast
  have "p / 100 - t = (p - t * 100) / 100" by simp
  then have "\<bar>p / 100 - t\<bar> = \<bar>p - t * 100\<bar> / 100" by (simp only: abs_divide)
  also have "\<dots> \<le> (\<bar>t * 100\<bar> / 2 ^ 53 + d) / 100"
    using perr by (simp add: divide_right_mono)
  also have "\<dots> = \<bar>t\<bar> / 2 ^ 53 + d / 100" by (simp add: abs_mult add_divide_distrib)
  also have "\<dots> \<le> \<bar>t\<bar> / 2 ^ 53 + d" using d by simp
  finally have "\<bar>p / 100 - t\<bar> \<le> \<bar>t\<bar> / 2 ^ 53 + 2 powi (- 1075)" by (simp only: d_def)
  moreover have "round2 (Finite t) = fl (half_up_2 (p / 100))"
    using p by (simp add: round2_def half_up_2_def)
  ultimately show ?thesis by blast
qed

lemma Math_round_Finite:
  "Math_round d = Finite r \<Longrightarrow> \<exists>p. d = Finite p \<and> r = real_of_int \<lfloor>p + 1 / 2\<rfloor>"
  by (cases d) auto

text \<open>
  Rounding a rounded value again leaves it as it is when \<^verbatim>\<open>Math.round(t * 100)\<close> is
  at most \<open>2 ^ 50\<close> in absolute value, or is not finite.
\<close>

lemma round2_idempotent:
  assumes "\<forall>k. hundredths t = Some k \<longrightarrow> \<bar>k\<bar> \<le> 2 ^ 50"
  shows "round2 (round2 t) = round2 t"
proof (cases "Math_round (dmul t (Finite 100))")
  case (Finite r)
  then obtain p :: real where "r = real_of_int \<lfloor>p + 1 / 2\<rfloor>"
    using Math_round_Finite by blast
  with Finite have h: "hundredths t = Some \<lfloor>p + 1 / 2\<rfloor>"
    and r: "round2 t = ddiv (Finite (real_of_int \<lfloor>p + 1 / 2\<rfloor>)) (Finite 100)"
    by (simp_all add: hundredths_def round2_def)
  from assms h have "\<bar>\<lfloor>p + 1 / 2\<rfloor>\<bar> \<le> 2 ^ 50" by simp
  then show ?thesis unfolding r by (rule round2_of_hundredths)
next
  case PInf
  then show ?thesis by (simp add: round2_def infinity_def)
next
  case NInf
  then show ?thesis by (simp add: round2_def infinity_def)
next
  case NaN
  then show ?thesis by (simp add: round2_def)
qed

text \<open>
  The double nearest to a real number whose quotient by \<open>2 ^ e\<close> lies between \<open>2 ^ 52\<close>
  and \<open>2 ^ 53\<close>: the quotient is rounded to an integer.
\<close>

lemma floor_log2:
  assumes "2 ^ 52 \<le> \<bar>x\<bar> / 2 powi e" and "\<bar>x\<bar> / 2 powi e < 2 ^ 53"
  shows "\<lfloor>log 2 \<bar>x\<bar>\<rfloor> = 52 + e"
proof -
  have p: "(0::real) < 2 powi e" by simp
  from assms(1) p have lo: "2 ^ 52 * 2 powi e \<le> \<bar>x\<bar>" by (simp add: field_simps)
  from assms(2) p have hi: "\<bar>x\<bar> < 2 ^ 53 * 2 powi e" by (simp add: field_simps)
  have "(0::real) < 2 ^ 52 * 2 powi e" by simp
  with lo have pos: "0 < \<bar>x\<bar>" by linarith
  have a: "(2::real) ^ 52 * 2 powi e = 2 powr real_of_int (52 + e)"
    by (simp add: powr_add powr_real_of_int' flip: powr_realpow)
  have b: "(2::real) ^ 53 * 2 powi e = 2 powr (real_of_int (52 + e) + 1)"
    by (simp add: powr_add powr_real_of_int' flip: powr_realpow)
  show ?thesis
    using lo hi pos unfolding a b by (subst floor_log_eq_powr_iff) auto
qed

lemma fl_at:
  assumes "2 ^ 52 \<le> \<bar>x\<bar> / 2 powi e" and "\<bar>x\<bar> / 2 powi e < 2 ^ 53"
    and "- 1074 \<le> e" and "e \<le> 970"
  shows "fl x = Finite (real_of_int (round_even (x / 2 powi e)) * 2 powi e)"
proof -
  have p: "(0::real) < 2 powi e" by simp
  from assms(1) p have x0: "x \<noteq> 0" by auto
  have L: "\<lfloor>log 2 \<bar>x\<bar>\<rfloor> = 52 + e" using assms(1,2) by (rule floor_log2)
  let ?n = "round_even (x / 2 powi e)"
  have "\<bar>real_of_int ?n\<bar> \<le> \<bar>x / 2 powi e\<bar> + 1 / 2"
    using round_even_error [of "x / 2 powi e"] by linarith
  also have "\<bar>x / 2 powi e\<bar> = \<bar>x\<bar> / 2 powi e" by (simp add: abs_divide)
  finally have "\<bar>real_of_int ?n\<bar> < 2 ^ 53 + 1 / 2" using assms(2) by linarith
  then have "real_of_int \<bar>?n\<bar> < real_of_int (2 ^ 53 + 1)" by simp
  then have "\<bar>?n\<bar> < 2 ^ 53 + 1" by (simp only: of_int_less_iff)
  then have "\<bar>?n\<bar> \<le> 2 ^ 53" by simp
  then have "real_of_int \<bar>?n\<bar> \<le> real_of_int (2 ^ 53)" by (simp only: of_int_le_iff)
  then have n: "\<bar>real_of_int ?n\<bar> \<le> 2 ^ 53" by simp
  have "\<bar>real_of_int ?n * 2 powi e\<bar> = \<bar>real_of_int ?n\<bar> * 2 powi e" by (simp add: abs_mult)
  also have "\<dots> \<le> 2 ^ 53 * 2 powi e" using n p by (intro mult_right_mono) auto
  also have "\<dots> \<le> 2 ^ 53 * 2 powi 970"
    using assms(4) by (intro mult_left_mono power_int_increasing) auto
  also have "\<dots> = 2 ^ 1023" by (simp add: power_int_def flip: power_add)
  finally have "\<bar>real_of_int ?n * 2 powi e\<bar> < 2 ^ 1024" by (simp add: less_le_trans [of _ "2^1023"])
  with x0 L assms(3) show ?thesis
    by (simp add: fl_def Let_def)
qed

text \<open>The doubles that the products and quotients of the examples are rounded to.\<close>

lemma fl_rounded_values:
  "fl (9429411719806975 / 281474976710656) = Finite (67 / 2)"
  "fl (17 / 50) = Finite (6124895493223875 / 18014398509481984)"
  "fl (125771361475971475 / 32) = Finite (7860710092248217 / 2)"
  "fl (3930355046124109 / 100) = Finite (1257713614759715 / 32)"
  "fl (31442840368992875 / 8) = Finite (7860710092248219 / 2)"
  "fl (393035504612411 / 10) = Finite (5030854459038861 / 128)"
  "fl (33 / 100) = Finite (5944751508129055 / 18014398509481984)"
  using fl_at [of "9429411719806975 / 281474976710656" "- 47"]
    fl_at [of "17 / 50" "- 54"]
    fl_at [of "125771361475971475 / 32" "- 1"]
    fl_at [of "3930355046124109 / 100" "- 7"]
    fl_at [of "31442840368992875 / 8" "- 1"]
    fl_at [of "393035504612411 / 10" "- 7"]
    fl_at [of "33 / 100" "- 54"]
  by (simp_all add: round_even_def Let_def power_int_minus)


lemma fl_exact_values:
  "fl (377176468792279 / 1125899906842624) = Finite (377176468792279 / 1125899906842624)"
  "fl (5030854459038859 / 128) = Finite (5030854459038859 / 128)"
  using fl_exact [of "377176468792279 / 1125899906842624" 377176468792279 "- 50"]
    fl_exact [of "5030854459038859 / 128" 5030854459038859 "- 7"]
  by (simp_all add: power_int_minus)


lemma put_proto: "put ''__proto__'' v xs = xs"
  by (cases xs) auto

lemma put_new:
  "k \<notin> fst ` set xs \<Longrightarrow> k \<noteq> ''__proto__'' \<Longrightarrow> put k v xs = xs @ [(k, v)]"
  by (induction xs) (auto split: if_splits)

lemma foldl_put:
  "distinct (map fst fs) \<Longrightarrow> fst ` set fs \<inter> fst ` set scores = {} \<Longrightarrow>
   foldl (\<lambda>sc nf. put (fst nf) (g nf) sc) scores fs =
     scores @ map (\<lambda>nf. (fst nf, g nf)) (filter (\<lambda>nf. fst nf \<noteq> ''__proto__'') fs)"
proof (induction fs arbitrary: scores)
  case Nil
  then show ?case by simp
next
  case (Cons nf fs)
  from Cons.prems have d: "distinct (map fst fs)" and n: "fst nf \<notin> fst ` set fs"
    and new: "fst nf \<notin> fst ` set scores"
    by auto
  show ?case
  proof (cases "fst nf = ''__proto__''")
    case True
    from Cons.prems have "fst ` set fs \<inter> fst ` set scores = {}" by auto
    with Cons.IH [OF d this] True show ?thesis by (simp add: put_proto)
  next
    case False
    with new have p: "put (fst nf) (g nf) scores = scores @ [(fst nf, g nf)]"
      by (simp add: put_new)
    from Cons.prems n have "fst ` set fs \<inter> fst ` set (scores @ [(fst nf, g nf)]) = {}"
      by auto
    with Cons.IH [OF d this] False p show ?thesis by simp
  qed
qed

section \<open>The differences between neighbouring comparisons\<close>

text \<open>
  The function \<open>calculateDifferences\<close> itself, when it returns, returns one difference less
  than it was given comparisons, and the difference at index \<open>i\<close> is the one from the
  comparison at \<open>i\<close> to the comparison at \<open>i + 1\<close>.
\<close>

lemma calculateDifferences_length:
  "calculateDifferences cs = Inr ds \<Longrightarrow> length ds = length cs - 1"
  by (induction cs arbitrary: ds rule: calculateDifferences.induct)
     (auto split: sum.splits)

lemma calculateDifferences_nth:
  "calculateDifferences cs = Inr ds \<Longrightarrow> i < length ds \<Longrightarrow>
   difference_of (cs ! i) (cs ! Suc i) = Inr (ds ! i)"
proof (induction cs arbitrary: ds i rule: calculateDifferences.induct)
  case (1 v1 v2 rest)
  then show ?case
    by (cases i) (auto split: sum.splits)
qed simp_all

lemma difference_of_names:
  "difference_of v1 v2 = Inr d \<Longrightarrow> d_from d = version_name v1 \<and> d_to d = version_name v2"
  by (auto simp: difference_of_def split: sum.splits)

text \<open>
  The handler of \<^verbatim>\<open>POST /api/scoring/compare\<close> never answers with a success: whenever
  the request, the fetch and the scoring get it as far as the differences, the call of
  \<^verbatim>\<open>this.calculateDifferences\<close> throws.
\<close>

lemma compare_never_succeeds: "compare ev fetch_error s req \<noteq> Reply st (Success d)"
  by (simp add: compare_def compare_handler_def module_this_def property_def Let_def
           split: option.splits sum.splits)

text \<open>
  C1. Comparing N configurations is to return N - 1 differences, the i-th from
  configuration i - 1 to configuration i. The route does not get there: for a request that
  names the two stored versions of the game type, both are fetched and scored, and the
  answer is the status 500 of the TypeError of \<^verbatim>\<open>this.calculateDifferences\<close>, with no
  differences in it.
\<close>

theorem compare_route_throws_instead_of_differences:
  "compare example_evaluate None example_store compare_request_without_test_data =
     Reply 500 (Failure ''this.calculateDifferences is not a function'')"
  by (simp add: compare_def module_this_def compare_handler_def fetch_versions_def falsy_def
        example_evaluate_def example_store_def version_old_def version_new_def
        config_old_def config_new_def compare_request_without_test_data_def
        value_of_def property_def score_version_def Let_def)

lemma weight_loop_names:
  "competency ` set (weight_loop ks w1 w2) = {k \<in> set ks. property w1 k \<noteq> property w2 k}"
  by (induction ks) auto

lemma weight_loop_self: "weight_loop ks w w = []"
  by (induction ks) auto

lemma formula_loop_self: "formula_loop ks f f = []"
  by (induction ks) auto

lemma compare_weights_self: "compare_weights w w = Inr []"
  by (auto simp: compare_weights_def weight_loop_self split: option.splits list.splits)

lemma compare_formulas_self: "compare_formulas f f = Inr []"
  by (auto simp: compare_formulas_def formula_loop_self split: option.splits list.splits)

lemma compare_weights_names:
  assumes "compare_weights w1 w2 = Inr wc"
  shows "competency ` set wc = {k \<in> names_of w1. value_of w1 k \<noteq> value_of w2 k}"
proof (cases w1)
  case None
  with assms show ?thesis by (simp add: compare_weights_def names_of_def)
next
  case (Some o1)
  show ?thesis
  proof (cases o1)
    case Nil
    with Some assms show ?thesis by (simp add: compare_weights_def names_of_def)
  next
    case (Cons p ps)
    with Some assms obtain o2 where o2: "w2 = Some o2"
      by (cases w2) (auto simp: compare_weights_def)
    with Some Cons assms have "wc = weight_loop (map fst o1) o1 o2"
      by (auto simp: compare_weights_def)
    with Some o2 show ?thesis
      by (simp add: weight_loop_names names_of_def value_of_def)
  qed
qed

text \<open>
  C2, as the code has it. The weight changes of a difference name the competencies that
  have a weight on the older side and whose weight on the newer side is another value or
  is missing. A competency that has a weight on the newer side only is not among the
  names of the older side, so it is never listed.
\<close>

theorem weight_changes_of_older_side:
  assumes "difference_of v1 v2 = Inr d"
  shows "competency ` set (weight_changes d) =
           {k \<in> names_of (weights v1). value_of (weights v1) k \<noteq> value_of (weights v2) k}"
proof -
  from assms obtain wc where "compare_weights (weights v1) (weights v2) = Inr wc"
    and "weight_changes d = wc"
    by (auto simp: difference_of_def split: sum.splits)
  then show ?thesis by (simp add: compare_weights_names)
qed

text \<open>
  The two example comparisons differ in the weight of \<open>focus\<close>, from 0.25 to 0.5, and the
  newer one has the weight of \<open>memory\<close> in addition: the names listed are those of the
  older side whose value differs.
\<close>

theorem weight_changes_of_older_side_witness:
  "difference_of comparison_old comparison_new =
     Inr \<lparr>d_from = ''v1'', d_to = ''v2'', score_change = Finite (75 / 2),
          weight_changes =
            [\<lparr>competency = ''focus'', old_weight = Some (1 / 4), new_weight = Some (1 / 2),
              change = Some (1 / 4)\<rparr>],
          formula_changes = []\<rparr> \<and>
   competency ` set (weight_changes
     \<lparr>d_from = ''v1'', d_to = ''v2'', score_change = Finite (75 / 2),
      weight_changes =
        [\<lparr>competency = ''focus'', old_weight = Some (1 / 4), new_weight = Some (1 / 2),
          change = Some (1 / 4)\<rparr>],
      formula_changes = []\<rparr>) =
     {k \<in> names_of (weights comparison_old).
        value_of (weights comparison_old) k \<noteq> value_of (weights comparison_new) k}"
proof -
  have h: "difference_of comparison_old comparison_new =
     Inr \<lparr>d_from = ''v1'', d_to = ''v2'', score_change = Finite (75 / 2),
          weight_changes =
            [\<lparr>competency = ''focus'', old_weight = Some (1 / 4), new_weight = Some (1 / 2),
              change = Some (1 / 4)\<rparr>],
          formula_changes = []\<rparr>"
    by (simp add: difference_of_def compare_weights_def compare_formulas_def minus_js_def
          dsub_def fl_values comparison_old_def comparison_new_def property_def)
  show ?thesis
    by (rule conjI [OF h weight_changes_of_older_side [OF h]])
qed

text \<open>
  C2 as stated fails: \<open>memory\<close> has the weight 0.25 in the newer comparison and none in the
  older one, and the weight changes of their difference name \<open>focus\<close> only.
\<close>

theorem weight_only_on_newer_side_not_listed:
  "value_of (weights comparison_old) ''memory'' = None \<and>
   value_of (weights comparison_new) ''memory'' = Some (1 / 4) \<and>
   calculateDifferences [comparison_old, comparison_new] =
     Inr [\<lparr>d_from = ''v1'', d_to = ''v2'', score_change = Finite (75 / 2),
           weight_changes =
             [\<lparr>competency = ''focus'', old_weight = Some (1 / 4), new_weight = Some (1 / 2),
               change = Some (1 / 4)\<rparr>],
           formula_changes = []\<rparr>]"
  by (simp add: difference_of_def compare_weights_def compare_formulas_def minus_js_def
        dsub_def fl_values comparison_old_def comparison_new_def value_of_def property_def)

lemma difference_of_self:
  "difference_of c c =
     Inr \<lparr>d_from = version_name c, d_to = version_name c,
          score_change = (if is_finite (final_score c) then Finite 0 else NaN),
          weight_changes = [], formula_changes = []\<rparr>"
  by (simp add: difference_of_def compare_weights_self compare_formulas_self dsub_self)

text \<open>
  C7, as the code has it. Two versions with the same configuration, scored against the
  same test data (supplied or not), have a single difference with no weight change and no
  formula change; its score change is 0 when the final score of the configuration is a
  finite number, and \<^verbatim>\<open>NaN\<close> when the final score is \<^verbatim>\<open>NaN\<close> or infinite. This covers a
  version compared with itself.
\<close>

theorem same_configuration_no_difference:
  assumes "score_version ev td a = Inr c1" and "score_version ev td b = Inr c2"
    and "v_config a = v_config b"
  shows "calculateDifferences [c1, c2] =
           Inr [\<lparr>d_from = v_version_name a, d_to = v_version_name b,
                 score_change = (if is_finite (final_score c1) then Finite 0 else NaN),
                 weight_changes = [], formula_changes = []\<rparr>]"
  using assms
  by (auto simp: score_version_def difference_of_def compare_weights_self compare_formulas_self
           dsub_self split: sum.splits prod.splits)

theorem same_configuration_no_difference_witness:
  "score_version example_evaluate (Some [(''accuracy'', 80)]) version_new = Inr comparison_new \<and>
   calculateDifferences [comparison_new, comparison_new] =
     Inr [\<lparr>d_from = ''v2'', d_to = ''v2'', score_change = Finite 0,
           weight_changes = [], formula_changes = []\<rparr>]"
proof -
  have h: "score_version example_evaluate (Some [(''accuracy'', 80)]) version_new =
           Inr comparison_new"
    by (simp add: example_evaluate_def version_new_def config_new_def comparison_new_def
          value_of_def property_def score_version_def Let_def round2_def
          weight_or_0_def to_number_def fl_values)
  from same_configuration_no_difference [OF h h refl] h show ?thesis
    by (simp add: is_finite_def comparison_new_def version_new_def)
qed

text \<open>
  C7 as stated fails: the configuration has a competency named \<open>toString\<close> and no weight for
  it, so its weight is the member that every object inherits, its weighted value and the
  final score are \<^verbatim>\<open>NaN\<close>, and the score change of the version against itself is
  \<^verbatim>\<open>NaN\<close>, not 0.
\<close>

theorem inherited_weight_makes_score_change_NaN:
  "score_version example_evaluate None version_inherited = Inr comparison_inherited \<and>
   calculateDifferences [comparison_inherited, comparison_inherited] =
     Inr [\<lparr>d_from = ''v4'', d_to = ''v4'', score_change = NaN,
           weight_changes = [], formula_changes = []\<rparr>]"
  by (simp add: example_evaluate_def version_inherited_def config_inherited_def
        comparison_inherited_def value_of_def property_def score_version_def Let_def
        round2_def weight_or_0_def to_number_def object_prototype_names_def
        difference_of_def compare_weights_def compare_formulas_def dsub_def)

section \<open>The scoring loops\<close>


lemma preview_handler_success:
  assumes "preview_handler missing tf req = Reply st (Success pd)"
  obtains fs ws tv scores t where "p_formulas req = Some fs" and "p_weights req = Some ws"
    and "p_test_variables req = Some tv"
    and "preview_loop tf ws tv fs [] (Finite 0) = Inr (scores, t)"
    and "pd = \<lparr>pd_scores = \<lparr>sr_final_score = round2 t, sr_competencies = scores\<rparr>,
               pd_test_variables = tv\<rparr>"
  using assms
  by (auto simp: preview_handler_def split: option.splits if_splits sum.splits prod.splits)

text \<open>
  The loop of the preview computes what \<open>preview_score\<close> says: it has put the score of every
  formula and added the weighted values from left to right.
\<close>

lemma preview_loop_expected:
  "preview_loop tf ws tv fs scores tot = Inr (scores', t') \<Longrightarrow>
   scores' = foldl (\<lambda>sc nf. put (fst nf) (preview_score tf tv ws nf) sc) scores fs \<and>
   t' = foldl dadd tot (map (\<lambda>nf. weighted (preview_score tf tv ws nf)) fs)"
proof (induction fs arbitrary: scores tot)
  case Nil
  then show ?case by simp
next
  case (Cons nf fs)
  obtain name f where nf: "nf = (name, f)" by (cases nf)
  from Cons.prems have ok: "success (tf f tv)"
    by (auto simp: nf Let_def split: if_splits)
  have entry: "preview_score tf tv ws (name, f) =
                 \<lparr>raw = max 0 (min 100 (result (tf f tv))), weight = weight_or_0 ws name,
                  weighted = dmul (Finite (max 0 (min 100 (result (tf f tv)))))
                               (to_number (weight_or_0 ws name))\<rparr>"
    by (simp add: preview_score_def)
  from Cons.prems ok have
    "preview_loop tf ws tv fs (put name (preview_score tf tv ws (name, f)) scores)
       (dadd tot (weighted (preview_score tf tv ws (name, f)))) = Inr (scores', t')"
    by (simp add: nf Let_def entry)
  from Cons.IH [OF this] show ?case by (simp add: nf)
qed





text \<open>
  The loop of the compare handlers computes what \<open>first_failure\<close> and \<open>score_of\<close> say:
  it stops at the first failure, and else has put the score of every formula and added
  the weighted values from left to right.
\<close>

lemma score_formulas_with_weights:
  "score_formulas ev td (Some w) fs scores tot =
     (case first_failure ev td (Some w) fs of
        Some e \<Rightarrow> Inl e
      | None \<Rightarrow>
          Inr (foldl (\<lambda>sc nf. put (fst nf) (score_of ev td w nf) sc) scores fs,
               foldl dadd tot (map (\<lambda>nf. weighted (score_of ev td w nf)) fs)))"
proof (induction fs arbitrary: scores tot)
  case Nil
  then show ?case by (simp add: first_failure_def)
next
  case (Cons nf fs)
  obtain name f where nf: "nf = (name, f)" by (cases nf)
  show ?case
  proof (cases "ev f td")
    case (Inl e)
    then show ?thesis by (simp add: nf first_failure_def)
  next
    case (Inr r)
    then have ff: "first_failure ev td (Some w) ((name, f) # fs) = first_failure ev td (Some w) fs"
      by (simp add: first_failure_def)
    from Inr have entry: "score_of ev td w (name, f) =
                     \<lparr>raw = max 0 (min 100 r), weight = weight_or_0 w name,
                      weighted = dmul (Finite (max 0 (min 100 r))) (to_number (weight_or_0 w name)),
                      formula = f\<rparr>"
      by (simp add: score_of_def result_of_def)
    from Inr have "score_formulas ev td (Some w) ((name, f) # fs) scores tot =
        score_formulas ev td (Some w) fs (put name (score_of ev td w (name, f)) scores)
          (dadd tot (weighted (score_of ev td w (name, f))))"
      by (simp add: Let_def entry)
    also have "\<dots> =
        (case first_failure ev td (Some w) fs of
           Some e \<Rightarrow> Inl e
         | None \<Rightarrow>
             Inr (foldl (\<lambda>sc nf. put (fst nf) (score_of ev td w nf) sc)
                    (put name (score_of ev td w (name, f)) scores) fs,
                  foldl dadd (dadd tot (weighted (score_of ev td w (name, f))))
                    (map (\<lambda>nf. weighted (score_of ev td w nf)) fs)))"
      by (rule Cons.IH)
    finally have step: "score_formulas ev td (Some w) ((name, f) # fs) scores tot =
        (case first_failure ev td (Some w) fs of
           Some e \<Rightarrow> Inl e
         | None \<Rightarrow>
             Inr (foldl (\<lambda>sc nf. put (fst nf) (score_of ev td w nf) sc)
                    (put name (score_of ev td w (name, f)) scores) fs,
                  foldl dadd (dadd tot (weighted (score_of ev td w (name, f))))
                    (map (\<lambda>nf. weighted (score_of ev td w nf)) fs)))" .
    show ?thesis
      unfolding nf step by (simp add: ff split: option.splits)
  qed
qed

lemma score_formulas_without_weights:
  "score_formulas ev td None fs scores tot =
     (case first_failure ev td None fs of Some e \<Rightarrow> Inl e | None \<Rightarrow> Inr (scores, tot))"
proof (cases fs)
  case Nil
  then show ?thesis by (simp add: first_failure_def)
next
  case (Cons nf rest)
  obtain name f where nf: "nf = (name, f)" by (cases nf)
  show ?thesis
    by (cases "ev f td") (simp_all add: Cons nf first_failure_def)
qed

lemma first_failure_without_weights:
  "first_failure ev td None fs = None \<Longrightarrow> fs = []"
  by (cases fs) (simp_all add: first_failure_def)

lemma score_version_expected:
  assumes "distinct (map fst (formulas_of v))"
  shows "score_version ev td v =
           (case version_failure ev td v of
              Some e \<Rightarrow> Inl e
            | None \<Rightarrow> Inr (expected_comparison ev td v))"
proof (cases "final_weights (v_config v)")
  case None
  show ?thesis
  proof (cases "version_failure ev td v")
    case (Some e)
    with None show ?thesis
      by (simp add: score_version_def score_formulas_without_weights version_failure_def
            formulas_of_def)
  next
    case no: None
    with None have "formulas_of v = []"
      by (simp add: version_failure_def first_failure_without_weights)
    with None no show ?thesis
      by (simp add: score_version_def score_formulas_without_weights version_failure_def
            expected_comparison_def flip: formulas_of_def)
  qed
next
  case (Some w)
  then have w: "weights_of v = w" by (simp add: weights_of_def)
  from assms have "foldl (\<lambda>sc nf. put (fst nf) (score_of ev td w nf) sc) [] (formulas_of v) =
                   map (\<lambda>nf. (fst nf, score_of ev td w nf))
                     (filter (\<lambda>nf. fst nf \<noteq> ''__proto__'') (formulas_of v))"
    using foldl_put [of "formulas_of v" "[]" "score_of ev td w"] by simp
  with Some w show ?thesis
    by (cases "version_failure ev td v")
       (simp_all add: score_version_def score_formulas_with_weights version_failure_def
          expected_comparison_def flip: formulas_of_def)
qed

lemma score_versions_expected:
  "\<forall>v \<in> set vs. distinct (map fst (formulas_of v)) \<Longrightarrow>
   score_versions ev td vs = expected_comparisons ev td vs"
proof (induction vs)
  case Nil
  then show ?case by (simp add: expected_comparisons_def)
next
  case (Cons v vs)
  then have d: "distinct (map fst (formulas_of v))"
    and IH: "score_versions ev td vs = expected_comparisons ev td vs"
    by simp_all
  show ?case
  proof (cases "version_failure ev td v")
    case (Some e)
    with d show ?thesis
      by (simp add: score_version_expected expected_comparisons_def)
  next
    case None
    with d IH show ?thesis
      by (simp add: score_version_expected expected_comparisons_def
               split: option.splits sum.splits)
  qed
qed

section \<open>Raw scores and the compare handlers\<close>



text \<open>
  C6, as the code has it. For a compare request that passes the checks and finds at least
  two versions (the keys of the formulas of each being distinct, as the keys of an object
  are), with or without \<open>test_data\<close>: every formula of every fetched version is evaluated,
  in order, against the \<open>test_data\<close> of the request as it is. When an evaluation throws, or
  a version with formulas has no weights object, both handlers answer the status 500 with
  the message of the first such failure. Otherwise \<open>compareVersions\<close> answers with one
  comparison for each fetched version, in the order of the fetch, each as
  \<open>expected_comparison\<close> has it, with the \<open>test_data\<close> of the request, and with no
  differences.
\<close>

theorem compare_handlers_score_every_request:
  assumes "c_game_type req = Some gt" and "gt \<noteq> []"
    and "version_ids req = Some ids" and "2 \<le> length ids"
    and "2 \<le> length (fetch_versions s gt ids)"
    and "\<forall>v \<in> set (fetch_versions s gt ids). distinct (map fst (formulas_of v))"
  shows "compareVersions ev None s req =
           (case expected_comparisons ev (test_data req) (fetch_versions s gt ids) of
              Inl e \<Rightarrow> Reply 500 (Failure e)
            | Inr cs \<Rightarrow>
                Reply 200 (Success \<lparr>comparisons = cs, differences = None,
                                     cd_test_data = test_data req\<rparr>)) \<and>
         (\<forall>e. expected_comparisons ev (test_data req) (fetch_versions s gt ids) = Inl e \<longrightarrow>
            compare ev None s req = Reply 500 (Failure e))"
  using assms score_versions_expected [of "fetch_versions s gt ids" ev "test_data req"]
  by (simp add: compare_def compareVersions_def compare_handler_def falsy_def Let_def)

text \<open>
  Without \<open>test_data\<close>: the two stored versions, whose formulas are numerals, are scored
  and \<open>compareVersions\<close> answers with both comparisons; with a version whose formula reads
  a variable, the evaluation throws and both handlers answer the status 500.
\<close>

theorem compare_handlers_score_every_request_witness:
  "test_data compare_request_without_test_data = None \<and>
   expected_comparisons example_evaluate None [version_old, version_new] =
     Inr [comparison_old, comparison_new] \<and>
   compareVersions example_evaluate None example_store compare_request_without_test_data =
     Reply 200 (Success \<lparr>comparisons = [comparison_old, comparison_new], differences = None,
                          cd_test_data = None\<rparr>) \<and>
   expected_comparisons example_evaluate None [version_old, version_variable] =
     Inl ''Undefined symbol accuracy'' \<and>
   compareVersions example_evaluate None variable_store variable_compare_request =
     Reply 500 (Failure ''Undefined symbol accuracy'') \<and>
   compare example_evaluate None variable_store variable_compare_request =
     Reply 500 (Failure ''Undefined symbol accuracy'')"
proof -
  have t: "test_data compare_request_without_test_data = None"
    "test_data variable_compare_request = None"
    by (simp_all add: compare_request_without_test_data_def variable_compare_request_def)
  have f1: "fetch_versions example_store ''memory'' [1, 2] = [version_old, version_new]"
    by (simp add: fetch_versions_def example_store_def version_old_def version_new_def)
  have f2: "fetch_versions variable_store ''memory'' [1, 5] = [version_old, version_variable]"
    by (simp add: fetch_versions_def variable_store_def version_old_def version_variable_def)
  have d: "distinct (map fst (formulas_of version_old))"
    "distinct (map fst (formulas_of version_new))"
    "distinct (map fst (formulas_of version_variable))"
    by (simp_all add: formulas_of_def version_old_def version_new_def version_variable_def
          config_old_def config_new_def config_variable_def)
  have e1: "expected_comparisons example_evaluate None [version_old, version_new] =
              Inr [comparison_old, comparison_new]"
    by (simp add: expected_comparisons_def version_failure_def first_failure_def
          expected_comparison_def score_of_def result_of_def formulas_of_def weights_of_def
          example_evaluate_def version_old_def version_new_def config_old_def config_new_def
          comparison_old_def comparison_new_def value_of_def property_def round2_def
          weight_or_0_def to_number_def fl_values)
  have e2: "expected_comparisons example_evaluate None [version_old, version_variable] =
              Inl ''Undefined symbol accuracy''"
    by (simp add: expected_comparisons_def version_failure_def first_failure_def
          formulas_of_def example_evaluate_def version_old_def version_variable_def
          config_old_def config_variable_def value_of_def)
  from compare_handlers_score_every_request
         [of compare_request_without_test_data "''memory''" "[1, 2]" example_store
             example_evaluate]
       f1 d e1 t
  have a1: "compareVersions example_evaluate None example_store
              compare_request_without_test_data =
            Reply 200 (Success \<lparr>comparisons = [comparison_old, comparison_new],
                                 differences = None, cd_test_data = None\<rparr>)"
    by (simp add: compare_request_without_test_data_def)
  from compare_handlers_score_every_request
         [of variable_compare_request "''memory''" "[1, 5]" variable_store example_evaluate]
       f2 d e2 t
  have a2: "compareVersions example_evaluate None variable_store variable_compare_request =
              Reply 500 (Failure ''Undefined symbol accuracy'') \<and>
            compare example_evaluate None variable_store variable_compare_request =
              Reply 500 (Failure ''Undefined symbol accuracy'')"
    by (simp add: variable_compare_request_def)
  from t e1 a1 e2 a2 show ?thesis by blast
qed

text \<open>
  C6 as stated fails: the request carries no \<open>test_data\<close>, and the answer of
  \<open>compareVersions\<close> has the scores of both versions, each formula evaluated (\<open>focus\<close> to
  150, clamped to 100) and weighted, with the final scores 25 and 62.5, and no differences.
\<close>

theorem compare_without_test_data_still_scores:
  "test_data compare_request_without_test_data = None \<and>
   compareVersions example_evaluate None example_store compare_request_without_test_data =
     Reply 200 (Success
       \<lparr>comparisons =
          [\<lparr>version_name = ''v1'', version_id = 1, description = ''first'',
            final_score = Finite 25,
            competencies =
              [(''focus'', \<lparr>raw = 100, weight = Num (1 / 4), weighted = Finite 25,
                            formula = ''150''\<rparr>)],
            formulas = Some [(''focus'', ''150'')],
            weights = Some [(''focus'', 1 / 4)]\<rparr>,
           \<lparr>version_name = ''v2'', version_id = 2, description = ''second'',
            final_score = Finite (125 / 2),
            competencies =
              [(''focus'', \<lparr>raw = 100, weight = Num (1 / 2), weighted = Finite 50,
                            formula = ''150''\<rparr>),
               (''memory'', \<lparr>raw = 50, weight = Num (1 / 4), weighted = Finite (25 / 2),
                             formula = ''50''\<rparr>)],
            formulas = Some [(''focus'', ''150''), (''memory'', ''50'')],
            weights = Some [(''focus'', 1 / 2), (''memory'', 1 / 4)]\<rparr>],
        differences = None, cd_test_data = None\<rparr>)"
  by (simp add: compareVersions_def compare_handler_def fetch_versions_def falsy_def
        example_evaluate_def example_store_def version_old_def version_new_def
        config_old_def config_new_def compare_request_without_test_data_def
        value_of_def property_def score_version_def Let_def round2_def
        weight_or_0_def to_number_def fl_values)

section \<open>The final score\<close>

text \<open>
  C5, as the code has it. For every successful preview (route or controller; the keys of
  the formulas being distinct, as the keys of an object are): the competencies hold the
  score of every formula in order, save one named \<^verbatim>\<open>__proto__\<close>, and the final score is
  \<^verbatim>\<open>Math.round(T * 100) / 100\<close> computed in doubles, where \<open>T\<close> is the sum, from left to
  right and in doubles, of the weighted values of all formulas. When \<open>T\<close> is finite with
  \<open>\<bar>T\<bar> * 100 \<le> 2 ^ 51\<close>, the final score is the double nearest to the half-up rounding to
  two decimals of a number \<open>t'\<close> that differs from \<open>T\<close> by at most \<open>\<bar>T\<bar> / 2 ^ 53 + 2 ^ - 1075\<close>
  (not always of \<open>T\<close> itself). Rounding the final score again leaves it unchanged whenever
  \<^verbatim>\<open>Math.round(T * 100)\<close> is not finite or is at most \<open>2 ^ 50\<close> in absolute value.
\<close>

theorem final_score_rounds_double_sum:
  assumes "handler \<in> {preview, previewScores}"
    and "handler tf req = Reply st (Success pd)"
    and "p_formulas req = Some fs" and "p_weights req = Some ws"
    and "p_test_variables req = Some tv"
    and "distinct (map fst fs)"
  shows "sr_competencies (pd_scores pd) =
           map (\<lambda>nf. (fst nf, preview_score tf tv ws nf))
             (filter (\<lambda>nf. fst nf \<noteq> ''__proto__'') fs) \<and>
         sr_final_score (pd_scores pd) = round2 (total_weighted tf tv ws fs) \<and>
         (\<forall>t. total_weighted tf tv ws fs = Finite t \<and> \<bar>t\<bar> * 100 \<le> 2 ^ 51 \<longrightarrow>
            (\<exists>t'. \<bar>t' - t\<bar> \<le> \<bar>t\<bar> / 2 ^ 53 + 2 powi (- 1075) \<and>
                  sr_final_score (pd_scores pd) = fl (half_up_2 t'))) \<and>
         ((\<forall>k. hundredths (total_weighted tf tv ws fs) = Some k \<longrightarrow> \<bar>k\<bar> \<le> 2 ^ 50) \<longrightarrow>
            round2 (sr_final_score (pd_scores pd)) = sr_final_score (pd_scores pd))"
proof -
  from assms(1,2) obtain missing where
    "preview_handler missing tf req = Reply st (Success pd)"
    by (auto simp: preview_def previewScores_def)
  then obtain fs' ws' tv' scores t where
    "p_formulas req = Some fs'" and "p_weights req = Some ws'"
    and "p_test_variables req = Some tv'"
    and "preview_loop tf ws' tv' fs' [] (Finite 0) = Inr (scores, t)"
    and "pd = \<lparr>pd_scores = \<lparr>sr_final_score = round2 t, sr_competencies = scores\<rparr>,
               pd_test_variables = tv'\<rparr>"
    by (rule preview_handler_success)
  with assms(3,4,5) have run: "preview_loop tf ws tv fs [] (Finite 0) = Inr (scores, t)"
    and final: "sr_final_score (pd_scores pd) = round2 t"
    and comps: "sr_competencies (pd_scores pd) = scores"
    by simp_all
  from preview_loop_expected [OF run]
  have scores: "scores = foldl (\<lambda>sc nf. put (fst nf) (preview_score tf tv ws nf) sc) [] fs"
    and t: "t = total_weighted tf tv ws fs"
    by (simp_all add: total_weighted_def)
  from assms(6) have c1: "sr_competencies (pd_scores pd) =
      map (\<lambda>nf. (fst nf, preview_score tf tv ws nf))
        (filter (\<lambda>nf. fst nf \<noteq> ''__proto__'') fs)"
    unfolding comps scores
    using foldl_put [of fs "[]" "preview_score tf tv ws"] by simp
  have c2: "sr_final_score (pd_scores pd) = round2 (total_weighted tf tv ws fs)"
    using final t by simp
  have c3: "\<forall>x. total_weighted tf tv ws fs = Finite x \<and> \<bar>x\<bar> * 100 \<le> 2 ^ 51 \<longrightarrow>
              (\<exists>t'. \<bar>t' - x\<bar> \<le> \<bar>x\<bar> / 2 ^ 53 + 2 powi (- 1075) \<and>
                    sr_final_score (pd_scores pd) = fl (half_up_2 t'))"
    unfolding c2 using round2_half_up by auto
  have c4: "(\<forall>k. hundredths (total_weighted tf tv ws fs) = Some k \<longrightarrow> \<bar>k\<bar> \<le> 2 ^ 50) \<longrightarrow>
              round2 (sr_final_score (pd_scores pd)) = sr_final_score (pd_scores pd)"
    unfolding c2 using round2_idempotent by blast
  from c1 c2 c3 c4 show ?thesis by blast
qed

text \<open>
  The example preview: the weighted values 50 and 20 add up to 70, which is its own
  rounding, and rounding it again gives 70.
\<close>

theorem final_score_rounds_double_sum_witness:
  "preview example_testFormula example_preview_request =
     Reply 200 (Success
       \<lparr>pd_scores = \<lparr>sr_final_score = Finite 70,
          sr_competencies =
            [(''focus'', \<lparr>raw = 100, weight = Num (1 / 2), weighted = Finite 50\<rparr>),
             (''memory'', \<lparr>raw = 80, weight = Num (1 / 4), weighted = Finite 20\<rparr>)]\<rparr>,
        pd_test_variables = [(''accuracy'', 80)]\<rparr>) \<and>
   total_weighted example_testFormula [(''accuracy'', 80)]
     [(''focus'', 1 / 2), (''memory'', 1 / 4)]
     [(''focus'', ''150''), (''memory'', ''accuracy'')] = Finite 70 \<and>
   hundredths (Finite 70) = Some 7000 \<and>
   round2 (Finite 70) = Finite 70 \<and>
   (\<exists>t'. \<bar>t' - 70\<bar> \<le> 70 / 2 ^ 53 + 2 powi (- 1075) \<and> Finite 70 = fl (half_up_2 t'))"
proof -
  let ?fs = "[(''focus'', ''150''), (''memory'', ''accuracy'')]"
  let ?ws = "[(''focus'', 1 / 2), (''memory'', 1 / 4 :: real)]"
  let ?tv = "[(''accuracy'', 80 :: real)]"
  let ?pd = "\<lparr>pd_scores = \<lparr>sr_final_score = Finite 70,
          sr_competencies =
            [(''focus'', \<lparr>raw = 100, weight = Num (1 / 2), weighted = Finite 50\<rparr>),
             (''memory'', \<lparr>raw = 80, weight = Num (1 / 4), weighted = Finite 20\<rparr>)]\<rparr>,
        pd_test_variables = ?tv\<rparr>"
  have h1: "preview example_testFormula example_preview_request = Reply 200 (Success ?pd)"
    by (simp add: preview_def preview_handler_def falsy_def example_testFormula_def
          example_evaluate_def example_preview_request_def value_of_def property_def Let_def
          round2_def weight_or_0_def to_number_def fl_values)
  have m: "preview \<in> {preview, previewScores}" by simp
  have r: "p_formulas example_preview_request = Some ?fs"
    "p_weights example_preview_request = Some ?ws"
    "p_test_variables example_preview_request = Some ?tv"
    by (simp_all add: example_preview_request_def)
  have d: "distinct (map fst ?fs)" by simp
  have tw: "total_weighted example_testFormula ?tv ?ws ?fs = Finite 70"
    by (simp add: total_weighted_def preview_score_def example_testFormula_def
          example_evaluate_def value_of_def property_def weight_or_0_def to_number_def
          fl_values)
  have hu: "hundredths (Finite 70) = Some 7000"
    by (simp add: hundredths_def fl_values)
  have small: "\<bar>70 :: real\<bar> * 100 \<le> 2 ^ 51" by simp
  have k: "\<forall>k. hundredths (Finite 70) = Some k \<longrightarrow> \<bar>k\<bar> \<le> 2 ^ 50"
    by (simp add: hu)
  from final_score_rounds_double_sum
         [of preview example_testFormula example_preview_request 200 ?pd ?fs ?ws ?tv,
          OF m h1 r d]
  have "(\<forall>t. Finite 70 = Finite t \<and> \<bar>t\<bar> * 100 \<le> 2 ^ 51 \<longrightarrow>
           (\<exists>t'. \<bar>t' - t\<bar> \<le> \<bar>t\<bar> / 2 ^ 53 + 2 powi (- 1075) \<and>
                 Finite 70 = fl (half_up_2 t'))) \<and>
        ((\<forall>k. hundredths (Finite 70) = Some k \<longrightarrow> \<bar>k\<bar> \<le> 2 ^ 50) \<longrightarrow>
           round2 (Finite 70) = Finite 70)"
    unfolding tw by simp
  with small k have "round2 (Finite 70) = Finite 70"
    and "\<exists>t'. \<bar>t' - 70\<bar> \<le> 70 / 2 ^ 53 + 2 powi (- 1075) \<and> Finite 70 = fl (half_up_2 t')"
    by auto
  with h1 tw hu show ?thesis by blast
qed

text \<open>
  C5 as stated fails. With the one weighted value 0.33499999999999996, below 0.335, the
  product by 100 is rounded to the double 33.5 and the final score is 0.34, where the
  half-up rounding of the sum is 0.33. With the one weighted value 39303550461241.086 the
  final score is 39303550461241.09, and rounding it again gives 39303550461241.1. With a
  competency named \<^verbatim>\<open>__proto__\<close> the final score is 50 and there is no weighted value in
  the answer.
\<close>

theorem final_score_not_half_up_nor_idempotent:
  "preview example_testFormula tie_preview_request =
     Reply 200 (Success
       \<lparr>pd_scores = \<lparr>sr_final_score = Finite (6124895493223875 / 18014398509481984),
          sr_competencies =
            [(''focus'', \<lparr>raw = 1, weight = Num (377176468792279 / 1125899906842624),
                          weighted = Finite (377176468792279 / 1125899906842624)\<rparr>)]\<rparr>,
        pd_test_variables = [(''accuracy'', 1)]\<rparr>) \<and>
   half_up_2 (377176468792279 / 1125899906842624) = 33 / 100 \<and>
   fl (33 / 100) = Finite (5944751508129055 / 18014398509481984) \<and>
   fl (34 / 100) = Finite (6124895493223875 / 18014398509481984) \<and>
   preview example_testFormula large_preview_request =
     Reply 200 (Success
       \<lparr>pd_scores = \<lparr>sr_final_score = Finite (1257713614759715 / 32),
          sr_competencies =
            [(''focus'', \<lparr>raw = 1, weight = Num (5030854459038859 / 128),
                          weighted = Finite (5030854459038859 / 128)\<rparr>)]\<rparr>,
        pd_test_variables = [(''accuracy'', 1)]\<rparr>) \<and>
   round2 (Finite (1257713614759715 / 32)) = Finite (5030854459038861 / 128) \<and>
   preview example_testFormula proto_preview_request =
     Reply 200 (Success
       \<lparr>pd_scores = \<lparr>sr_final_score = Finite 50, sr_competencies = []\<rparr>,
        pd_test_variables = [(''accuracy'', 1)]\<rparr>)"
proof -
  have a: "preview example_testFormula tie_preview_request =
     Reply 200 (Success
       \<lparr>pd_scores = \<lparr>sr_final_score = Finite (6124895493223875 / 18014398509481984),
          sr_competencies =
            [(''focus'', \<lparr>raw = 1, weight = Num (377176468792279 / 1125899906842624),
                          weighted = Finite (377176468792279 / 1125899906842624)\<rparr>)]\<rparr>,
        pd_test_variables = [(''accuracy'', 1)]\<rparr>)"
    by (simp add: preview_def preview_handler_def falsy_def example_testFormula_def
          example_evaluate_def tie_preview_request_def value_of_def property_def Let_def
          round2_def weight_or_0_def to_number_def fl_exact_values fl_rounded_values)
  have b: "half_up_2 (377176468792279 / 1125899906842624) = 33 / 100"
    by (simp add: half_up_2_def)
  have c: "fl (33 / 100) = Finite (5944751508129055 / 18014398509481984)"
    "fl (34 / 100) = Finite (6124895493223875 / 18014398509481984)"
    by (simp_all add: fl_rounded_values)
  have d: "preview example_testFormula large_preview_request =
     Reply 200 (Success
       \<lparr>pd_scores = \<lparr>sr_final_score = Finite (1257713614759715 / 32),
          sr_competencies =
            [(''focus'', \<lparr>raw = 1, weight = Num (5030854459038859 / 128),
                          weighted = Finite (5030854459038859 / 128)\<rparr>)]\<rparr>,
        pd_test_variables = [(''accuracy'', 1)]\<rparr>)"
    by (simp add: preview_def preview_handler_def falsy_def example_testFormula_def
          example_evaluate_def large_preview_request_def value_of_def property_def Let_def
          round2_def weight_or_0_def to_number_def fl_exact_values fl_rounded_values)
  have e: "round2 (Finite (1257713614759715 / 32)) = Finite (5030854459038861 / 128)"
    by (simp add: round2_def fl_rounded_values)
  have f: "preview example_testFormula proto_preview_request =
     Reply 200 (Success
       \<lparr>pd_scores = \<lparr>sr_final_score = Finite 50, sr_competencies = []\<rparr>,
        pd_test_variables = [(''accuracy'', 1)]\<rparr>)"
    by (simp add: preview_def preview_handler_def falsy_def example_testFormula_def
          example_evaluate_def proto_preview_request_def value_of_def property_def Let_def
          round2_def weight_or_0_def to_number_def fl_values)
  from a b c d e f show ?thesis by blast
qed

section \<open>What a submit persists\<close>

text \<open>
  C3. When the scoring of a submit request throws, the answer is the status 500 with the
  message of the exception, and the store is as it was: no session, no raw telemetry, and
  no scores in the answer.
\<close>

theorem submit_scoring_failure_persists_nothing:
  assumes "sub_game_type req = Some gt" and "gt \<noteq> []"
    and "sub_user_id req = Some uid" and "uid \<noteq> []"
    and "sub_raw_data req = Some rd"
    and "select_error out = None" and "select_active s gt = Some cfg"
    and "calc gt (v_config cfg) rd = Inl e"
  shows "submitGame calc out s req = (Reply 500 (Failure e), s)"
  using assms by (simp add: submitGame_def)

theorem submit_scoring_failure_persists_nothing_witness:
  "example_calculateScores ''memory'' (v_config version_new) [] =
     Inl ''Formula error in focus: Undefined symbol accuracy'' \<and>
   submitGame example_calculateScores submit_outcomes_ok example_store failing_submit_request =
     (Reply 500 (Failure ''Formula error in focus: Undefined symbol accuracy''), example_store)"
proof -
  have h: "example_calculateScores ''memory'' (v_config version_new) [] =
             Inl ''Formula error in focus: Undefined symbol accuracy''"
    by (simp add: example_calculateScores_def)
  have a: "select_active example_store ''memory'' = Some version_new"
    by (simp add: select_active_def example_store_def version_old_def version_new_def)
  from submit_scoring_failure_persists_nothing
         [of failing_submit_request "''memory''" "''u1''" "[]" submit_outcomes_ok
             example_store version_new example_calculateScores, OF _ _ _ _ _ _ a h]
       h
  show ?thesis
    by (simp add: failing_submit_request_def submit_outcomes_ok_def)
qed

text \<open>
  C10. The session is inserted before the raw telemetry. When both inserts succeed, the
  answer is the success with the id of the session, and the store has the new session,
  final scores included, and then the receipt with the raw telemetry under that id. When
  the insert of the raw telemetry fails after the session was inserted, the answer is the
  status 500 with its error, and the store has the new session and no new receipt: the
  session is not rolled back. When the insert of the session fails, nothing is stored.
\<close>

theorem submit_persists_session_then_telemetry:
  assumes "sub_game_type req = Some gt" and "gt \<noteq> []"
    and "sub_user_id req = Some uid" and "uid \<noteq> []"
    and "sub_raw_data req = Some rd"
    and "select_error out = None" and "select_active s gt = Some cfg"
    and "calc gt (v_config cfg) rd = Inr sc"
  shows "(session_insert out = Inr sid \<and> receipt_error out = None \<longrightarrow>
            submitGame calc out s req =
              (Reply 200 (Success \<lparr>sd_session_id = sid, version_used = v_version_name cfg,
                                   sd_scores = sc\<rparr>),
               s\<lparr>test_sessions := test_sessions s @
                    [\<lparr>s_id = sid, s_user_id = uid, s_game_type = gt,
                      scoring_version_id = v_id cfg, status = ''completed'',
                      final_scores = sc, completed_at = now out\<rparr>],
                 action_receipts := action_receipts s @
                    [\<lparr>session_id = sid, raw_data = rd\<rparr>]\<rparr>)) \<and>
         (session_insert out = Inr sid \<and> receipt_error out = Some e \<longrightarrow>
            submitGame calc out s req =
              (Reply 500 (Failure e),
               s\<lparr>test_sessions := test_sessions s @
                    [\<lparr>s_id = sid, s_user_id = uid, s_game_type = gt,
                      scoring_version_id = v_id cfg, status = ''completed'',
                      final_scores = sc, completed_at = now out\<rparr>]\<rparr>)) \<and>
         (session_insert out = Inl e \<longrightarrow>
            submitGame calc out s req = (Reply 500 (Failure e), s))"
  using assms by (simp add: submitGame_def Let_def)

text \<open>
  The same request with both inserts succeeding, with the insert of the receipt failing,
  and with the insert of the session failing.
\<close>

theorem submit_persists_session_then_telemetry_witness:
  "submitGame example_calculateScores submit_outcomes_ok example_store example_submit_request =
     (Reply 200 (Success
        \<lparr>sd_session_id = 7, version_used = ''v2'',
         sd_scores = \<lparr>sr_final_score = Finite 40,
           sr_competencies =
             [(''focus'', \<lparr>raw = 80, weight = Num (1 / 2), weighted = Finite 40\<rparr>)]\<rparr>\<rparr>),
      \<lparr>scoring_versions = [version_old, version_new], test_sessions = [example_session],
       action_receipts = [\<lparr>session_id = 7, raw_data = [(''hits'', 8)]\<rparr>]\<rparr>) \<and>
   submitGame example_calculateScores submit_outcomes_receipt_fails example_store
     example_submit_request =
     (Reply 500 (Failure ''insert failed''),
      \<lparr>scoring_versions = [version_old, version_new], test_sessions = [example_session],
       action_receipts = []\<rparr>) \<and>
   submitGame example_calculateScores submit_outcomes_session_fails example_store
     example_submit_request =
     (Reply 500 (Failure ''insert failed''), example_store)"
proof -
  have a: "select_active example_store ''memory'' = Some version_new"
    by (simp add: select_active_def example_store_def version_old_def version_new_def)
  have c: "example_calculateScores ''memory'' (v_config version_new) [(''hits'', 8)] =
             Inr \<lparr>sr_final_score = Finite 40,
                  sr_competencies =
                    [(''focus'', \<lparr>raw = 80, weight = Num (1 / 2), weighted = Finite 40\<rparr>)]\<rparr>"
    by (simp add: example_calculateScores_def)
  have r: "sub_game_type example_submit_request = Some ''memory''"
    "sub_user_id example_submit_request = Some ''u1''"
    "sub_raw_data example_submit_request = Some [(''hits'', 8)]"
    by (simp_all add: example_submit_request_def)
  have n: "''memory'' \<noteq> []" "''u1'' \<noteq> []" by simp_all
  have s1: "select_error submit_outcomes_ok = None"
    and s2: "select_error submit_outcomes_receipt_fails = None"
    and s3: "select_error submit_outcomes_session_fails = None"
    by (simp_all add: submit_outcomes_ok_def submit_outcomes_receipt_fails_def
          submit_outcomes_session_fails_def)
  from submit_persists_session_then_telemetry
         [of example_submit_request "''memory''" "''u1''" "[(''hits'', 8)]" submit_outcomes_ok
             example_store version_new example_calculateScores _ 7 "''insert failed''",
          OF r(1) n(1) r(2) n(2) r(3) s1 a c]
  have first: "submitGame example_calculateScores submit_outcomes_ok example_store
       example_submit_request =
     (Reply 200 (Success
        \<lparr>sd_session_id = 7, version_used = ''v2'',
         sd_scores = \<lparr>sr_final_score = Finite 40,
           sr_competencies =
             [(''focus'', \<lparr>raw = 80, weight = Num (1 / 2), weighted = Finite 40\<rparr>)]\<rparr>\<rparr>),
      \<lparr>scoring_versions = [version_old, version_new], test_sessions = [example_session],
       action_receipts = [\<lparr>session_id = 7, raw_data = [(''hits'', 8)]\<rparr>]\<rparr>)"
    by (simp add: submit_outcomes_ok_def example_store_def example_session_def version_new_def)
  from submit_persists_session_then_telemetry
         [of example_submit_request "''memory''" "''u1''" "[(''hits'', 8)]" submit_outcomes_receipt_fails
             example_store version_new example_calculateScores _ 7 "''insert failed''",
          OF r(1) n(1) r(2) n(2) r(3) s2 a c]
  have second: "submitGame example_calculateScores submit_outcomes_receipt_fails example_store
       example_submit_request =
     (Reply 500 (Failure ''insert failed''),
      \<lparr>scoring_versions = [version_old, version_new], test_sessions = [example_session],
       action_receipts = []\<rparr>)"
    by (simp add: submit_outcomes_receipt_fails_def example_store_def example_session_def
          version_new_def)
  from submit_persists_session_then_telemetry
         [of example_submit_request "''memory''" "''u1''" "[(''hits'', 8)]" submit_outcomes_session_fails
             example_store version_new example_calculateScores _ 7 "''insert failed''",
          OF r(1) n(1) r(2) n(2) r(3) s3 a c]
  have third: "submitGame example_calculateScores submit_outcomes_session_fails example_store
       example_submit_request = (Reply 500 (Failure ''insert failed''), example_store)"
    by (simp add: submit_outcomes_session_fails_def)
  from first second third show ?thesis by blast
qed

section \<open>What a save persists\<close>

lemma validate_all_find:
  "validate_all vf fs =
     (case find (\<lambda>(n, f). \<not> valid (vf f)) fs of
        None \<Rightarrow> None
      | Some (n, f) \<Rightarrow> Some (''Invalid formula for '' @ n @ '': '' @ validation_error (vf f)))"
  by (induction fs) (auto simp: Let_def)

lemma validate_all_None:
  "validate_all vf fs = None \<Longrightarrow> \<forall>(n, f) \<in> set fs. valid (vf f)"
  by (induction fs) (auto simp: Let_def split: if_splits)

text \<open>
  C8. A save request whose configuration has a formula that is not valid is answered with
  the status 400 and the message that names the first such competency, and the store is as
  it was. Whenever a save changes the store, every formula of the configuration is valid.
\<close>

theorem save_rejects_invalid_formula:
  "(sv_config req = Some cfg \<and> \<not> falsy (sv_game_type req) \<and>
    competency_formulas cfg = Some fs \<and>
    find (\<lambda>(n, f). \<not> valid (vf f)) fs = Some (name, f) \<longrightarrow>
      save vf out s req =
        (Reply 400 (Failure (''Invalid formula for '' @ name @ '': '' @ validation_error (vf f))),
         s)) \<and>
   (sv_config req = Some cfg \<and> snd (save vf out s req) \<noteq> s \<longrightarrow>
      (\<forall>(n, f) \<in> entries_of (competency_formulas cfg). valid (vf f)))"
proof (intro conjI impI)
  assume "sv_config req = Some cfg \<and> \<not> falsy (sv_game_type req) \<and>
    competency_formulas cfg = Some fs \<and>
    find (\<lambda>(n, f). \<not> valid (vf f)) fs = Some (name, f)"
  then show "save vf out s req =
        (Reply 400 (Failure (''Invalid formula for '' @ name @ '': '' @ validation_error (vf f))),
         s)"
    by (simp add: save_def validate_all_find)
next
  let ?fs = "case competency_formulas cfg of None \<Rightarrow> [] | Some fs \<Rightarrow> fs"
  assume a: "sv_config req = Some cfg \<and> snd (save vf out s req) \<noteq> s"
  have "validate_all vf ?fs = None"
  proof (rule ccontr)
    assume "validate_all vf ?fs \<noteq> None"
    then obtain e where "validate_all vf ?fs = Some e" by auto
    with a have "snd (save vf out s req) = s"
      by (simp add: save_def)
    with a show False by simp
  qed
  then have "\<forall>(n, f) \<in> set ?fs. valid (vf f)"
    by (rule validate_all_None)
  then show "\<forall>(n, f) \<in> entries_of (competency_formulas cfg). valid (vf f)"
    by (cases "competency_formulas cfg") (simp_all add: entries_of_def)
qed

theorem save_rejects_invalid_formula_witness:
  "find (\<lambda>(n, f). \<not> valid (example_validateFormula f)) [(''focus'', ''150''), (''memory'', [])] =
     Some (''memory'', []) \<and>
   save example_validateFormula save_outcomes_ok example_store invalid_save_request =
     (Reply 400 (Failure ''Invalid formula for memory: Empty formula''), example_store) \<and>
   snd (save example_validateFormula save_outcomes_ok example_store example_save_request) \<noteq>
     example_store \<and>
   list_all (\<lambda>(n, f). valid (example_validateFormula f)) [(''focus'', ''150''), (''memory'', ''50'')]"
proof -
  have h: "find (\<lambda>(n, f). \<not> valid (example_validateFormula f))
             [(''focus'', ''150''), (''memory'', [])] = Some (''memory'', [])"
    by (simp add: example_validateFormula_def)
  have c: "competency_formulas config_invalid = Some [(''focus'', ''150''), (''memory'', [])]"
    by (simp add: config_invalid_def)
  have r: "sv_config invalid_save_request = Some config_invalid"
    "\<not> falsy (sv_game_type invalid_save_request)"
    by (simp_all add: invalid_save_request_def falsy_def)
  have ch: "snd (save example_validateFormula save_outcomes_ok example_store
               example_save_request) \<noteq> example_store"
    by (simp add: save_def falsy_def deactivate_def Let_def example_validateFormula_def save_outcomes_ok_def
          example_store_def example_save_request_def config_new_def)
  have r2: "sv_config example_save_request = Some config_new"
    by (simp add: example_save_request_def)
  from save_rejects_invalid_formula
         [of invalid_save_request config_invalid "[(''focus'', ''150''), (''memory'', [])]"
             example_validateFormula "''memory''" "[]" save_outcomes_ok example_store]
       h c r
  have first: "save example_validateFormula save_outcomes_ok example_store invalid_save_request =
     (Reply 400 (Failure ''Invalid formula for memory: Empty formula''), example_store)"
    by (simp add: example_validateFormula_def)
  from save_rejects_invalid_formula
         [of example_save_request config_new _ example_validateFormula _ _
             save_outcomes_ok example_store]
       r2 ch
  have "\<forall>(n, f) \<in> entries_of (competency_formulas config_new). valid (example_validateFormula f)"
    by blast
  then have "list_all (\<lambda>(n, f). valid (example_validateFormula f))
               [(''focus'', ''150''), (''memory'', ''50'')]"
    by (simp add: entries_of_def config_new_def)
  with h first ch show ?thesis by blast
qed

lemma deactivate_none_active:
  "filter (\<lambda>v. v_game_type v = gt \<and> is_active v) (deactivate gt rows) = []"
  by (induction rows) (auto simp: deactivate_def)

lemma deactivate_other_game_types:
  "filter (\<lambda>v. v_game_type v \<noteq> gt) (deactivate gt rows) = filter (\<lambda>v. v_game_type v \<noteq> gt) rows"
  by (induction rows) (auto simp: deactivate_def)

text \<open>
  When the three calls of a save succeed, the update that deactivates included, the new
  version is stored active, it is the only active version of its game type, and the
  versions of the other game types are as they were.
\<close>

lemma save_activates_only_new_version:
  assumes "sv_config req = Some cfg" and "sv_game_type req = Some gt" and "gt \<noteq> []"
    and "validate_all vf (case competency_formulas cfg of None \<Rightarrow> [] | Some fs \<Rightarrow> fs) = None"
    and "next_version_name out = Inr name" and "deactivate_error out = None"
    and "version_insert out = Inr new_id"
  shows "\<exists>row. save vf out s req =
            (Reply 200 (Success \<lparr>message = ''Saved as '' @ name, newVersion = row\<rparr>),
             s\<lparr>scoring_versions := deactivate gt (scoring_versions s) @ [row]\<rparr>) \<and>
          is_active row \<and> v_game_type row = gt \<and> v_config row = cfg \<and>
          filter (\<lambda>v. v_game_type v = gt \<and> is_active v)
            (deactivate gt (scoring_versions s) @ [row]) = [row] \<and>
          filter (\<lambda>v. v_game_type v \<noteq> gt) (deactivate gt (scoring_versions s) @ [row]) =
            filter (\<lambda>v. v_game_type v \<noteq> gt) (scoring_versions s)"
  using assms
  by (simp add: save_def falsy_def Let_def deactivate_none_active deactivate_other_game_types)

text \<open>
  C9. A successful save is to leave the new version as the only active one of its game
  type. The handler does not look at what the deactivating update resolves to: when that
  update fails and the insert succeeds, the save answers with a success, and the store has
  two active versions of the game type, \<open>v2\<close> from before and the new \<open>v3\<close>; a submit
  for that game type then finds no single active configuration.
\<close>

theorem save_after_failed_deactivation_has_two_active:
  "save example_validateFormula save_outcomes_deactivation_fails example_store
     example_save_request =
     (Reply 200 (Success \<lparr>message = ''Saved as v3'', newVersion = version_saved\<rparr>),
      \<lparr>scoring_versions = [version_old, version_new, version_saved], test_sessions = [],
       action_receipts = []\<rparr>) \<and>
   filter (\<lambda>v. v_game_type v = ''memory'' \<and> is_active v)
     [version_old, version_new, version_saved] = [version_new, version_saved] \<and>
   select_active
     \<lparr>scoring_versions = [version_old, version_new, version_saved], test_sessions = [],
      action_receipts = []\<rparr> ''memory'' = None"
  by (simp add: save_def falsy_def select_active_def Let_def example_validateFormula_def
        save_outcomes_deactivation_fails_def example_store_def example_save_request_def
        config_new_def version_old_def version_new_def version_saved_def)
end
